theory Spec2Isabelle
  imports Complex_Main "HOL-Library.Sublist"
begin

section \<open>Values, errors and thrown values\<close>

text \<open>
  The model follows \<^verbatim>\<open>packages/1000fetches/src\<close>: \<^verbatim>\<open>errors.ts\<close>, \<^verbatim>\<open>core.ts\<close>,
  \<^verbatim>\<open>schema.ts\<close>, \<^verbatim>\<open>utils/streaming.ts\<close> and \<^verbatim>\<open>utils/path.ts\<close>.
  JavaScript numbers are idealised: counts and byte lengths are naturals, status codes are
  integers, delays are reals. A schema object is named by a string; what the object looks
  like is read through a separate lookup (section on \<^verbatim>\<open>schema.ts\<close>). What the code
  takes from the platform (\<^verbatim>\<open>new URL\<close>, \<^verbatim>\<open>new Request\<close>, \<^verbatim>\<open>parseInt\<close>, the way
  the build compiles class fields) is a parameter of the model.
\<close>

datatype HttpMethod = GET | POST | PUT | DELETE | PATCH | HEAD | OPTIONS

fun methodName :: "HttpMethod \<Rightarrow> string" where
  "methodName GET = ''GET''"
| "methodName POST = ''POST''"
| "methodName PUT = ''PUT''"
| "methodName DELETE = ''DELETE''"
| "methodName PATCH = ''PATCH''"
| "methodName HEAD = ''HEAD''"
| "methodName OPTIONS = ''OPTIONS''"

text \<open>A decoded response body: the result of \<^verbatim>\<open>json()\<close>, \<^verbatim>\<open>text()\<close>, \<^verbatim>\<open>blob()\<close> or
  \<^verbatim>\<open>arrayBuffer()\<close>, with its content kept as text.\<close>

datatype data = JsonData string | TextData string | BlobData string | ArrayBufferData string

type_synonym schema = string

datatype phase = request | response

text \<open>Which trigger aborted the effective signal of an attempt. JavaScript does not show
  this on the error (both give a \<^verbatim>\<open>DOMException\<close> named \<^verbatim>\<open>AbortError\<close>); the
  model keeps it so that the two cases can be told apart in statements.\<close>

datatype abort_source = ByTimeout | ByCaller

text \<open>The classes of \<^verbatim>\<open>errors.ts\<close>, with the fields their constructors store, and the
  errors of the platform: \<open>NativeError name message\<close> (a \<^verbatim>\<open>TypeError\<close>, a plain
  \<^verbatim>\<open>Error\<close>, ...) and \<open>AbortError\<close>. \<open>HttpError\<close> leaves out the raw
  \<^verbatim>\<open>Response\<close> it also stores.\<close>

datatype error =
    HttpError string int string data string string
  | NetworkError string "error option"
  | SchemaValidationError string schema data "error option"
  | TimeoutError string "error option"
  | PathParameterError string string "string list" "string list"
  | MiddlewareError string phase string HttpMethod "error option"
  | SerializationError string "error option"
  | InvalidSchemaError string schema
  | AsyncSchemaValidationError string schema
  | NativeError string string
  | AbortError abort_source

text \<open>\<^verbatim>\<open>error.name\<close>.\<close>

fun name :: "error \<Rightarrow> string" where
  "name (HttpError m s st d u me) = ''HttpError''"
| "name (NetworkError m c) = ''NetworkError''"
| "name (SchemaValidationError m s d c) = ''SchemaValidationError''"
| "name (TimeoutError m c) = ''TimeoutError''"
| "name (PathParameterError m u r p) = ''PathParameterError''"
| "name (MiddlewareError m ph u me c) = ''MiddlewareError''"
| "name (SerializationError m c) = ''SerializationError''"
| "name (InvalidSchemaError m s) = ''InvalidSchemaError''"
| "name (AsyncSchemaValidationError m s) = ''AsyncSchemaValidationError''"
| "name (NativeError n m) = n"
| "name (AbortError src) = ''AbortError''"

text \<open>\<^verbatim>\<open>error.message\<close>.\<close>

fun message :: "error \<Rightarrow> string" where
  "message (HttpError m s st d u me) = m"
| "message (NetworkError m c) = m"
| "message (SchemaValidationError m s d c) = m"
| "message (TimeoutError m c) = m"
| "message (PathParameterError m u r p) = m"
| "message (MiddlewareError m ph u me c) = m"
| "message (SerializationError m c) = m"
| "message (InvalidSchemaError m s) = m"
| "message (AsyncSchemaValidationError m s) = m"
| "message (NativeError n m) = m"
| "message (AbortError src) = ''This operation was aborted''"

text \<open>\<^verbatim>\<open>error instanceof HttpError\<close> and \<^verbatim>\<open>error instanceof NetworkError\<close>.\<close>

fun instanceofHttpError :: "error \<Rightarrow> bool" where
  "instanceofHttpError (HttpError m s st d u me) = True"
| "instanceofHttpError e = False"

fun instanceofNetworkError :: "error \<Rightarrow> bool" where
  "instanceofNetworkError (NetworkError m c) = True"
| "instanceofNetworkError e = False"

fun status_of :: "error \<Rightarrow> int" where
  "status_of (HttpError m s st d u me) = s"
| "status_of e = 0"

text \<open>JavaScript can throw any value. \<open>ThrownError e\<close> is an instance of
  \<^verbatim>\<open>Error\<close>; \<open>ThrownValue s\<close> is any other value, kept as \<^verbatim>\<open>String(value)\<close>.\<close>

datatype thrown = ThrownError error | ThrownValue string

text \<open>\<^verbatim>\<open>error instanceof Error ? error : undefined\<close>, the cause the wrappers store.\<close>

fun causeOf :: "thrown \<Rightarrow> error option" where
  "causeOf (ThrownError e) = Some e"
| "causeOf (ThrownValue s) = None"

text \<open>\<^verbatim>\<open>error instanceof Error ? error.message : String(error)\<close>.\<close>

fun thrownText :: "thrown \<Rightarrow> string" where
  "thrownText (ThrownError e) = message e"
| "thrownText (ThrownValue s) = s"

text \<open>
  The classes of \<^verbatim>\<open>errors.ts\<close> hand the cause to the constructor of \<^verbatim>\<open>Error\<close> and
  declare the field \<^verbatim>\<open>cause\<close> again, without a value. In a build that defines class
  fields, the declared field replaces what the constructor of \<^verbatim>\<open>Error\<close> stored by
  \<^verbatim>\<open>undefined\<close>; in a build that does not, the cause stays. The build is not part of
  the sources, so the model takes it as a flag, where the response processing, the
  request phase and the attempt build their errors.
\<close>

definition storedCause :: "bool \<Rightarrow> error option \<Rightarrow> error option" where
  "storedCause definesFields c = (if definesFields then None else c)"

definition createErrorMessage :: "string \<Rightarrow> thrown \<Rightarrow> string" where
  "createErrorMessage context t = context @ '': '' @ thrownText t"

text \<open>Decimal rendering of a number inside a template literal.\<close>

definition digitChar :: "nat \<Rightarrow> char" where
  "digitChar d = ''0123456789'' ! d"

fun decimal :: "nat \<Rightarrow> string" where
  "decimal n = (if 10 \<le> n then decimal (n div 10) @ [digitChar (n mod 10)] else [digitChar n])"

declare decimal.simps [simp del]

definition showNumber :: "int \<Rightarrow> string" where
  "showNumber i = (if 0 \<le> i then decimal (nat i) else CHR ''-'' # decimal (nat (- i)))"

section \<open>Retry options (\<^verbatim>\<open>types.ts\<close>, \<^verbatim>\<open>core.ts\<close>)\<close>

text \<open>
  Every field of \<^verbatim>\<open>RetryOptions\<close> is optional. An object literal can leave a property
  out, or carry it with the value \<^verbatim>\<open>undefined\<close>; object spread copies the second kind
  and skips the first, so the model keeps them apart.
\<close>

datatype 'a js_field = Absent | Undefined | Defined 'a

record RetryOptions =
  maxRetries :: "nat js_field"
  retryDelay :: "real js_field"
  backoffFactor :: "real js_field"
  retryStatusCodes :: "int list js_field"
  retryNetworkErrors :: "bool js_field"
  maxRetryDelay :: "real js_field"
  shouldRetryFn :: "(error \<Rightarrow> nat \<Rightarrow> bool) js_field"

text \<open>An options object that is \<^verbatim>\<open>undefined\<close> or \<^verbatim>\<open>{}\<close> spreads nothing.\<close>

definition noRetryOptions :: RetryOptions where
  "noRetryOptions =
     \<lparr> maxRetries = Absent, retryDelay = Absent, backoffFactor = Absent,
       retryStatusCodes = Absent, retryNetworkErrors = Absent, maxRetryDelay = Absent,
       shouldRetryFn = Absent \<rparr>"

definition DEFAULT_RETRY_OPTIONS :: RetryOptions where
  "DEFAULT_RETRY_OPTIONS =
     \<lparr> maxRetries = Defined 3, retryDelay = Defined 300, backoffFactor = Defined 2,
       retryStatusCodes = Defined [429, 500, 502, 503, 504],
       retryNetworkErrors = Defined True, maxRetryDelay = Defined 30000,
       shouldRetryFn = Defined (\<lambda>e k. True) \<rparr>"

text \<open>One property of \<^verbatim>\<open>{ ...a, ...b }\<close>: the later object wins where it has the
  property at all.\<close>

fun spread :: "'a js_field \<Rightarrow> 'a js_field \<Rightarrow> 'a js_field" where
  "spread a Absent = a"
| "spread a b = b"

text \<open>\<^verbatim>\<open>{ ...DEFAULT_RETRY_OPTIONS, ...config.retryOptions, ...requestRetryOptions }\<close>.\<close>

definition mergedRetryOptions :: "RetryOptions \<Rightarrow> RetryOptions \<Rightarrow> RetryOptions" where
  "mergedRetryOptions c r =
     \<lparr> maxRetries = spread (spread (maxRetries DEFAULT_RETRY_OPTIONS) (maxRetries c)) (maxRetries r),
       retryDelay = spread (spread (retryDelay DEFAULT_RETRY_OPTIONS) (retryDelay c)) (retryDelay r),
       backoffFactor =
         spread (spread (backoffFactor DEFAULT_RETRY_OPTIONS) (backoffFactor c)) (backoffFactor r),
       retryStatusCodes =
         spread (spread (retryStatusCodes DEFAULT_RETRY_OPTIONS) (retryStatusCodes c))
           (retryStatusCodes r),
       retryNetworkErrors =
         spread (spread (retryNetworkErrors DEFAULT_RETRY_OPTIONS) (retryNetworkErrors c))
           (retryNetworkErrors r),
       maxRetryDelay =
         spread (spread (maxRetryDelay DEFAULT_RETRY_OPTIONS) (maxRetryDelay c)) (maxRetryDelay r),
       shouldRetryFn =
         spread (spread (shouldRetryFn DEFAULT_RETRY_OPTIONS) (shouldRetryFn c)) (shouldRetryFn r) \<rparr>"

text \<open>\<^verbatim>\<open>x ?? d\<close>: the default replaces \<^verbatim>\<open>undefined\<close> (and a missing property, which
  reads as \<^verbatim>\<open>undefined\<close>).\<close>

fun orElse :: "'a js_field \<Rightarrow> 'a \<Rightarrow> 'a" where
  "orElse (Defined v) d = v"
| "orElse f d = d"

text \<open>\<^verbatim>\<open>shouldRetry(error, retryCount, retryOptions)\<close> of \<^verbatim>\<open>core.ts\<close>. The record field
  is called \<open>shouldRetryFn\<close> so that the function keeps the name it has in the source. A
  predicate of the caller is taken to return a boolean.\<close>

definition shouldRetry :: "error \<Rightarrow> nat \<Rightarrow> RetryOptions option \<Rightarrow> bool" where
  "shouldRetry err retryCount retryOptions =
     (case retryOptions of
        None \<Rightarrow> False
      | Some ro \<Rightarrow>
          (case shouldRetryFn ro of
             Defined p \<Rightarrow> p err retryCount
           | _ \<Rightarrow>
               if instanceofHttpError err then
                 (case retryStatusCodes ro of
                    Defined codes \<Rightarrow> status_of err \<in> set codes
                  | _ \<Rightarrow> False)
               else if instanceofNetworkError err \<or> name err = ''TypeError'' then
                 orElse (retryNetworkErrors ro) False
               else False))"

text \<open>\<^verbatim>\<open>calculateRetryDelay(attempt, retryOptions)\<close>; \<^verbatim>\<open>Math.pow\<close> on an attempt
  index is the power with a natural exponent.\<close>

definition calculateRetryDelay :: "nat \<Rightarrow> RetryOptions option \<Rightarrow> real" where
  "calculateRetryDelay attempt retryOptions =
     (case retryOptions of
        None \<Rightarrow> 0
      | Some ro \<Rightarrow>
          (let baseDelay = orElse (retryDelay ro) 300;
               backoffFactor = orElse (backoffFactor ro) 2;
               maxDelay = orElse (maxRetryDelay ro) 30000;
               delay = baseDelay * backoffFactor ^ attempt
           in min delay maxDelay))"

section \<open>Path interpolation (\<^verbatim>\<open>utils/path.ts\<close>)\<close>

text \<open>
  \<^verbatim>\<open>pathParams\<close> is an object written as a literal: its properties in the order they
  are written, a later one replacing an earlier one of the same key. Its prototype is
  \<^verbatim>\<open>Object.prototype\<close>. A value is \<^verbatim>\<open>undefined\<close>, a string, or a number; a number is
  kept as the text \<^verbatim>\<open>String\<close> gives for it. \<open>InheritedParam k\<close> is the value of the
  property \<open>k\<close> of \<^verbatim>\<open>Object.prototype\<close>.
\<close>

datatype param = UndefinedParam | StringParam string | NumberParam string | InheritedParam string

type_synonym pathParams = "(string \<times> param) list"

text \<open>The properties every such object inherits.\<close>

definition prototypeKeys :: "string list" where
  "prototypeKeys =
     [''constructor'', ''hasOwnProperty'', ''isPrototypeOf'', ''propertyIsEnumerable'',
      ''toLocaleString'', ''toString'', ''valueOf'', ''__defineGetter__'',
      ''__defineSetter__'', ''__lookupGetter__'', ''__lookupSetter__'', ''__proto__'']"

text \<open>The own properties: in a literal, \<^verbatim>\<open>__proto__\<close> followed by a string, a number
  or \<^verbatim>\<open>undefined\<close> makes no property.\<close>

definition ownProperties :: "pathParams \<Rightarrow> pathParams" where
  "ownProperties params = filter (\<lambda>kv. fst kv \<noteq> ''__proto__'') params"

text \<open>\<^verbatim>\<open>params[paramName]\<close>: the own property if there is one (the last one written),
  else the inherited one, else \<^verbatim>\<open>undefined\<close>.\<close>

definition getParam :: "pathParams \<Rightarrow> string \<Rightarrow> param" where
  "getParam params k =
     (case map_of (rev (ownProperties params)) k of
        Some v \<Rightarrow> v
      | None \<Rightarrow> if k \<in> set prototypeKeys then InheritedParam k else UndefinedParam)"

text \<open>\<^verbatim>\<open>String(value)\<close>; the inherited values are functions, but for the prototype
  itself, and print as V8 prints them.\<close>

fun String :: "param \<Rightarrow> string" where
  "String UndefinedParam = ''undefined''"
| "String (StringParam s) = s"
| "String (NumberParam s) = s"
| "String (InheritedParam k) =
     (if k = ''__proto__'' then ''[object Object]''
      else if k = ''constructor'' then ''function Object() { [native code] }''
      else ''function '' @ k @ ''() { [native code] }'')"

definition isDigit :: "char \<Rightarrow> bool" where
  "isDigit c \<longleftrightarrow> c \<in> set ''0123456789''"

definition digitVal :: "char \<Rightarrow> nat" where
  "digitVal c = length (takeWhile (\<lambda>d. d \<noteq> c) ''0123456789'')"

definition digitsValue :: "string \<Rightarrow> nat" where
  "digitsValue ds = foldl (\<lambda>a c. 10 * a + digitVal c) 0 ds"

text \<open>An array index: the decimal text of a natural below \<open>2^32 - 1\<close>, without
  leading zero.\<close>

definition isArrayIndex :: "string \<Rightarrow> bool" where
  "isArrayIndex k \<longleftrightarrow>
     k \<noteq> [] \<and> list_all isDigit k \<and> (k = ''0'' \<or> take 1 k \<noteq> ''0'') \<and>
     digitsValue k < 4294967295"

text \<open>\<^verbatim>\<open>Object.keys(params)\<close>: each own key once; the array indices first, in
  ascending order, then the other keys in the order they were first written.\<close>

definition objectKeys :: "pathParams \<Rightarrow> string list" where
  "objectKeys params =
     (let own = rev (remdups (rev (map fst (ownProperties params))))
      in sort_key digitsValue (filter isArrayIndex own)
           @ filter (\<lambda>k. \<not> isArrayIndex k) own)"

text \<open>The character class \<^verbatim>\<open>[a-zA-Z0-9_]\<close>.\<close>

definition wordChar :: "char \<Rightarrow> bool" where
  "wordChar c \<longleftrightarrow>
     c \<in> set ''abcdefghijklmnopqrstuvwxyzABCDEFGHIJKLMNOPQRSTUVWXYZ0123456789_''"

text \<open>
  The matches of \<^verbatim>\<open>/:([a-zA-Z0-9_]+)/g\<close> in a string, left to right: a colon followed
  by the longest non-empty run of word characters is a token; every other character is
  copied. A \<^verbatim>\<open>?\<close> after a token is not part of the match.
\<close>

datatype segment = Lit char | Token string

function matchTokens :: "string \<Rightarrow> segment list" where
  "matchTokens [] = []"
| "matchTokens (c # cs) =
     (if c = CHR '':'' \<and> takeWhile wordChar cs \<noteq> []
      then Token (takeWhile wordChar cs) # matchTokens (dropWhile wordChar cs)
      else Lit c # matchTokens cs)"
  by pat_completeness auto
termination
  by (relation "measure length") (auto simp: le_imp_less_Suc length_dropWhile_le)

text \<open>The replacer callback of \<^verbatim>\<open>generatePath\<close>, run on the matches in order; the
  first one that throws ends the replacement.\<close>

fun replaceAll :: "string \<Rightarrow> pathParams \<Rightarrow> segment list \<Rightarrow> error + string" where
  "replaceAll path params [] = Inr []"
| "replaceAll path params (Lit c # segs) =
     (case replaceAll path params segs of Inl e \<Rightarrow> Inl e | Inr rest \<Rightarrow> Inr (c # rest))"
| "replaceAll path params (Token paramName # segs) =
     (if getParam params paramName = UndefinedParam
      then Inl (PathParameterError (''Missing required path parameter: '' @ paramName) path
                  [paramName] (objectKeys params))
      else (case replaceAll path params segs of
              Inl e \<Rightarrow> Inl e
            | Inr rest \<Rightarrow> Inr (String (getParam params paramName) @ rest)))"

definition generatePath :: "string \<Rightarrow> pathParams \<Rightarrow> error + string" where
  "generatePath path params = replaceAll path params (matchTokens path)"

text \<open>What a match is replaced by when no replacement throws.\<close>

fun substitute :: "pathParams \<Rightarrow> segment \<Rightarrow> string" where
  "substitute params (Lit c) = [c]"
| "substitute params (Token n) = String (getParam params n)"

text \<open>The token names of a template, in order of appearance.\<close>

fun tokenNames :: "segment list \<Rightarrow> string list" where
  "tokenNames [] = []"
| "tokenNames (Lit c # segs) = tokenNames segs"
| "tokenNames (Token n # segs) = n # tokenNames segs"

section \<open>Schema validation (\<^verbatim>\<open>schema.ts\<close>)\<close>

text \<open>
  What \<^verbatim>\<open>schema['~standard'].validate(data)\<close> gives back: a promise, a result whose
  \<^verbatim>\<open>issues\<close> are set (kept as \<^verbatim>\<open>JSON.stringify(result.issues)\<close>), or a result with
  a value. The call itself may throw.
\<close>

datatype validation = Promise | Issues string | Value data

text \<open>
  The view of the schema objects: \<open>std s = Some v\<close> when the object \<open>s\<close> passes
  \<^verbatim>\<open>isStandardSchema\<close> (it has a \<^verbatim>\<open>~standard\<close> object with a \<^verbatim>\<open>validate\<close>
  function, a numeric \<^verbatim>\<open>version\<close> and a string \<^verbatim>\<open>vendor\<close>), \<open>v\<close> being that
  \<^verbatim>\<open>validate\<close> function; \<open>std s = None\<close> when it does not.
\<close>

type_synonym standard = "schema \<Rightarrow> (data \<Rightarrow> thrown + validation) option"

definition isStandardSchema :: "standard \<Rightarrow> schema \<Rightarrow> bool" where
  "isStandardSchema std obj \<longleftrightarrow> std obj \<noteq> None"

record SchemaValidator =
  validate :: "schema \<Rightarrow> data \<Rightarrow> thrown + data"
  isSchema :: "schema \<Rightarrow> bool"

definition createSchemaValidator :: "standard \<Rightarrow> SchemaValidator" where
  "createSchemaValidator std =
     \<lparr> validate = (\<lambda>schema d.
         (case std schema of
            None \<Rightarrow>
              Inl (ThrownError (InvalidSchemaError
                ''Schema must implement the Standard Schema interface'' schema))
          | Some v \<Rightarrow>
              (case v d of
                 Inl t \<Rightarrow> Inl t
               | Inr Promise \<Rightarrow>
                   Inl (ThrownError (AsyncSchemaValidationError
                     ''Async Standard Schema validation is not supported in this context''
                     schema))
               | Inr (Issues js) \<Rightarrow> Inl (ThrownError (SchemaValidationError js schema d None))
               | Inr (Value x) \<Rightarrow> Inr x))),
       isSchema = isStandardSchema std \<rparr>"

text \<open>The two errors that speak of the adapter protocol rather than of the data.\<close>

fun protocolError :: "error \<Rightarrow> bool" where
  "protocolError (InvalidSchemaError m s) = True"
| "protocolError (AsyncSchemaValidationError m s) = True"
| "protocolError e = False"

section \<open>Responses (\<^verbatim>\<open>core.ts\<close>, \<^verbatim>\<open>processResponse\<close>)\<close>

text \<open>
  A byte stream as its reader sees it: \<^verbatim>\<open>read()\<close> gives the chunks in turn, and
  after the last one either reports \<^verbatim>\<open>done\<close> (\<open>failure = None\<close>) or rejects
  (\<open>failure = Some t\<close>).
\<close>

text \<open>A chunk is a \<^verbatim>\<open>Uint8Array\<close>: its bytes, as naturals; \<^verbatim>\<open>value.length\<close> is the
  length of the list.\<close>

type_synonym chunk = "nat list"

record source =
  chunks :: "chunk list"
  failure :: "thrown option"

text \<open>
  A transport response: status line, headers (names in lower case, looked up by name),
  the body stream (\<^verbatim>\<open>null\<close> for a response without body), and what each body reader
  gives when it is awaited.
\<close>

datatype reader = AsText | AsJson | AsBlob | AsArrayBuffer

datatype responseType = TextType | BlobType | ArrayBufferType

record Response =
  status :: int
  statusText :: string
  headers :: "(string \<times> string) list"
  body :: "source option"
  readBody :: "reader \<Rightarrow> thrown + data"

text \<open>\<^verbatim>\<open>ResponseType<T>\<close> of \<^verbatim>\<open>types.ts\<close>, the envelope handed to the caller.\<close>

record ResponseType =
  data :: data
  env_status :: int
  env_statusText :: string
  env_headers :: "(string \<times> string) list"
  env_method :: HttpMethod
  env_url :: string
  raw :: Response

text \<open>The options object \<^verbatim>\<open>processResponse\<close> receives.\<close>

record ProcessOptions =
  validateStatus :: "(int \<Rightarrow> bool) option"
  schema :: "schema option"
  responseType :: "responseType option"

text \<open>\<^verbatim>\<open>haystack.includes(needle)\<close> on strings.\<close>

fun str_includes :: "string \<Rightarrow> string \<Rightarrow> bool" where
  "str_includes [] needle \<longleftrightarrow> needle = []"
| "str_includes (c # cs) needle \<longleftrightarrow> prefix needle (c # cs) \<or> str_includes cs needle"

text \<open>\<^verbatim>\<open>contentType?.includes(s)\<close>: a missing header gives \<^verbatim>\<open>undefined\<close>, which is
  falsy.\<close>

definition headerIncludes :: "string option \<Rightarrow> string \<Rightarrow> bool" where
  "headerIncludes contentType needle =
     (case contentType of None \<Rightarrow> False | Some h \<Rightarrow> str_includes h needle)"

text \<open>The body of the first \<^verbatim>\<open>try\<close> of \<^verbatim>\<open>processResponse\<close>: which reader decodes
  the body.\<close>

definition decodeBody :: "Response \<Rightarrow> responseType option \<Rightarrow> thrown + data" where
  "decodeBody resp rt =
     (if rt = Some TextType then readBody resp AsText
      else if rt = Some BlobType then readBody resp AsBlob
      else if rt = Some ArrayBufferType then readBody resp AsArrayBuffer
      else
        (let contentType = map_of (headers resp) ''content-type'' in
         if headerIncludes contentType ''application/json'' then readBody resp AsJson
         else if headerIncludes contentType ''text/'' then readBody resp AsText
         else readBody resp AsArrayBuffer))"

text \<open>The constructor of \<^verbatim>\<open>HttpError\<close> extends the message it is given.\<close>

definition newHttpError ::
  "string \<Rightarrow> int \<Rightarrow> string \<Rightarrow> data \<Rightarrow> string \<Rightarrow> string \<Rightarrow> error" where
  "newHttpError msg st stText d u m =
     HttpError (''HTTP '' @ showNumber st @ '' '' @ stText @ '': '' @ msg
                  @ '' ('' @ m @ '' '' @ u @ '')'')
       st stText d u m"

text \<open>\<^verbatim>\<open>processResponse\<close>; the first argument is the flag of the build (see
  \<open>storedCause\<close>).\<close>

definition processResponse ::
  "bool \<Rightarrow> Response \<Rightarrow> ProcessOptions \<Rightarrow> HttpMethod \<Rightarrow> string \<Rightarrow> SchemaValidator
   \<Rightarrow> error + ResponseType" where
  "processResponse definesFields resp options method url schemaValidator =
     (let validateStatus' =
            (case validateStatus options of
               Some f \<Rightarrow> f
             | None \<Rightarrow> (\<lambda>s. 200 \<le> s \<and> s < 300))
      in
      case decodeBody resp (responseType options) of
        Inl t \<Rightarrow>
          Inl (SerializationError (createErrorMessage ''Failed to parse response body'' t)
                 (storedCause definesFields (causeOf t)))
      | Inr d \<Rightarrow>
          if \<not> validateStatus' (status resp) then
            Inl (newHttpError
                   (''HTTP '' @ showNumber (status resp) @ '' '' @ statusText resp)
                   (status resp) (statusText resp) d url (methodName method))
          else
            (let responseObj =
                   \<lparr> data = d, env_status = status resp, env_statusText = statusText resp,
                     env_headers = headers resp, env_method = method, env_url = url,
                     raw = resp \<rparr>
             in
             case schema options of
               None \<Rightarrow> Inr responseObj
             | Some sch \<Rightarrow>
                 (case validate schemaValidator sch (data responseObj) of
                    Inl t \<Rightarrow>
                      Inl (SchemaValidationError
                             (''Schema validation failed: '' @ thrownText t)
                             sch (data responseObj)
                             (storedCause definesFields (causeOf t)))
                  | Inr v \<Rightarrow> Inr (responseObj\<lparr>data := v\<rparr>))))"

section \<open>The request pipeline (\<^verbatim>\<open>core.ts\<close>, \<^verbatim>\<open>createHttpRequest\<close>)\<close>

text \<open>
  Scope of the pipeline model: query parameters, the request body and the upload and
  download callbacks are left out (\<^verbatim>\<open>params\<close>, \<^verbatim>\<open>body\<close>, \<^verbatim>\<open>onUploadStreaming\<close> and
  \<^verbatim>\<open>onDownloadStreaming\<close> are \<^verbatim>\<open>undefined\<close>), so lines 184 to 244 of \<^verbatim>\<open>core.ts\<close>
  only build \<^verbatim>\<open>requestInit\<close>. \<^verbatim>\<open>new URL\<close> and \<^verbatim>\<open>new Request\<close> may throw a
  \<^verbatim>\<open>TypeError\<close>; the transport, the two middleware hooks, the body readers and the
  schema validator may throw anything.

  A caller's \<^verbatim>\<open>AbortSignal\<close> is read once per attempt: \<open>sig i\<close> is
  \<^verbatim>\<open>signal.aborted\<close> when attempt \<open>i\<close> starts.
\<close>

type_synonym AbortSignal = "nat \<Rightarrow> bool"

text \<open>The signal an attempt hands to the transport (\<^verbatim>\<open>finalSignal\<close>): the caller's own
  signal, the signal of the combined controller, or the signal of the attempt's timeout
  controller.\<close>

datatype finalSignal = CallerSignal | CombinedSignal | ControllerSignal

record RequestContext =
  url :: string
  ctx_method :: HttpMethod
  ctx_headers :: "(string \<times> string) list"
  signal :: "AbortSignal option"

text \<open>What the code reads from a \<^verbatim>\<open>Request\<close> object: the URL, method and headers as
  the constructor has normalised them.\<close>

record Request =
  req_url :: string
  req_method :: HttpMethod
  req_headers :: "(string \<times> string) list"

text \<open>
  The platform: \<open>joinUrl u base\<close> is \<^verbatim>\<open>new URL(u, base).toString()\<close> and
  \<open>newRequest\<close> is \<^verbatim>\<open>new Request(requestContext.url, requestInit)\<close>; either gives
  its result or the message of the \<^verbatim>\<open>TypeError\<close> it throws. \<open>definesClassFields\<close>
  is the flag of the build (see \<open>storedCause\<close>).
\<close>

record platform =
  joinUrl :: "string \<Rightarrow> string \<Rightarrow> string + string"
  newRequest :: "RequestContext \<Rightarrow> string + Request"
  definesClassFields :: bool

definition typeError :: "string \<Rightarrow> error" where
  "typeError msg = NativeError ''TypeError'' msg"

text \<open>The arguments of one transport call.\<close>

record FetchInit =
  init_url :: string
  init_method :: HttpMethod
  init_headers :: "(string \<times> string) list"
  init_signal :: finalSignal

text \<open>The transport answers each call by a response or a rejection; it may answer
  differently from call to call, so it also gets the number of calls made before.\<close>

type_synonym transport = "nat \<Rightarrow> FetchInit \<Rightarrow> thrown + Response"

record HttpClientConfig =
  baseUrl :: string
  defaultHeaders :: "(string \<times> string) list"
  cfg_timeout :: "nat option"
  schemaValidator :: SchemaValidator
  customFetch :: transport
  retryOptions :: RetryOptions
  onRequestMiddleware :: "(RequestContext \<Rightarrow> thrown + RequestContext) option"
  onResponseMiddleware :: "(ResponseType \<Rightarrow> thrown + ResponseType) option"

record HttpRequestOptions =
  opt_method :: "HttpMethod option"
  opt_headers :: "(string \<times> string) list"
  opt_pathParams :: "pathParams option"
  opt_schema :: "schema option"
  opt_timeout :: "nat option"
  opt_signal :: "AbortSignal option"
  opt_validateStatus :: "(int \<Rightarrow> bool) option"
  opt_responseType :: "responseType option"
  opt_retryOptions :: RetryOptions

text \<open>
  What one invocation does to the world, in order: the transport calls, the backoff
  delays slept, and the per-attempt timeout timers that are scheduled and neither fired
  nor cleared (named by attempt index).
\<close>

record trace =
  calls :: "FetchInit list"
  sleeps :: "real list"
  timers :: "nat list"

definition noTrace :: trace where
  "noTrace = \<lparr> calls = [], sleeps = [], timers = [] \<rparr>"

text \<open>\<^verbatim>\<open>timeout: defaultTimeout = 30_000\<close>.\<close>

definition defaultTimeout :: "HttpClientConfig \<Rightarrow> nat" where
  "defaultTimeout config = (case cfg_timeout config of None \<Rightarrow> 30000 | Some t \<Rightarrow> t)"

text \<open>Lines 258 to 275: the signal of the attempt. A caller's signal that is already
  aborted is handed on as it is; otherwise a combined controller listens to both.\<close>

definition finalSignalOf :: "RequestContext \<Rightarrow> nat \<Rightarrow> finalSignal" where
  "finalSignalOf requestContext attempt =
     (case signal requestContext of
        Some sig \<Rightarrow> if sig attempt then CallerSignal else CombinedSignal
      | None \<Rightarrow> ControllerSignal)"

text \<open>Lines 283 to 290: the arguments of the transport call, read from the request
  object.\<close>

definition fetchInit :: "Request \<Rightarrow> finalSignal \<Rightarrow> FetchInit" where
  "fetchInit trackedRequest finalSignal =
     \<lparr> init_url = req_url trackedRequest, init_method = req_method trackedRequest,
       init_headers = req_headers trackedRequest, init_signal = finalSignal \<rparr>"

text \<open>
  Lines 277 to 324: the body of the \<^verbatim>\<open>try\<close> statement of one attempt, given the number
  of transport calls made before. It gives what the body returns or throws, and the
  transport call it made, if it came to make one: when \<^verbatim>\<open>new Request\<close> throws, the
  transport is not called. The \<^verbatim>\<open>method\<close> given to \<^verbatim>\<open>processResponse\<close> and to the
  \<^verbatim>\<open>MiddlewareError\<close> is the one of the options, the URL is the one of the request
  context.
\<close>

definition tryBlock ::
  "platform \<Rightarrow> HttpClientConfig \<Rightarrow> ProcessOptions \<Rightarrow> HttpMethod \<Rightarrow> RequestContext \<Rightarrow> nat
   \<Rightarrow> nat \<Rightarrow> (thrown + ResponseType) \<times> FetchInit option" where
  "tryBlock pf config popts meth requestContext attempt made =
     (case newRequest pf requestContext of
        Inl msg \<Rightarrow> (Inl (ThrownError (typeError msg)), None)
      | Inr trackedRequest \<Rightarrow>
          (let init = fetchInit trackedRequest (finalSignalOf requestContext attempt)
           in
           (case customFetch config made init of
              Inl t \<Rightarrow> Inl t
            | Inr resp \<Rightarrow>
                (case processResponse (definesClassFields pf) resp popts meth
                        (url requestContext) (schemaValidator config) of
                   Inl e \<Rightarrow> Inl (ThrownError e)
                 | Inr responseData \<Rightarrow>
                     (case onResponseMiddleware config of
                        None \<Rightarrow> Inr responseData
                      | Some mw \<Rightarrow>
                          (case mw responseData of
                             Inr r \<Rightarrow> Inr r
                           | Inl t \<Rightarrow>
                               Inl (ThrownError (MiddlewareError
                                 (createErrorMessage ''Response middleware failed'' t)
                                 response (url requestContext) meth
                                 (storedCause (definesClassFields pf) (causeOf t))))))),
            Some init)))"

text \<open>
  In one invocation \<^verbatim>\<open>new Request\<close> gets the same arguments at every attempt. The
  transport calls of the first \<open>m\<close> attempts are therefore none when it throws, and
  one per attempt when it returns; \<open>attemptResult\<close> is what attempt \<open>i\<close> of an
  invocation returns or throws.
\<close>

definition callsUpTo :: "platform \<Rightarrow> RequestContext \<Rightarrow> nat \<Rightarrow> FetchInit list" where
  "callsUpTo pf requestContext m =
     (case newRequest pf requestContext of
        Inl msg \<Rightarrow> []
      | Inr trackedRequest \<Rightarrow>
          map (\<lambda>i. fetchInit trackedRequest (finalSignalOf requestContext i)) [0..<m])"

definition attemptResult ::
  "platform \<Rightarrow> HttpClientConfig \<Rightarrow> ProcessOptions \<Rightarrow> HttpMethod \<Rightarrow> RequestContext \<Rightarrow> nat
   \<Rightarrow> thrown + ResponseType" where
  "attemptResult pf config popts meth requestContext i =
     fst (tryBlock pf config popts meth requestContext i
            (length (callsUpTo pf requestContext i)))"

text \<open>Lines 327 to 334: what the \<^verbatim>\<open>catch\<close> clause makes of the thrown value, in
  a build with the given flag.\<close>

definition catchError :: "bool \<Rightarrow> nat \<Rightarrow> thrown \<Rightarrow> error" where
  "catchError definesFields timeout t =
     (let lastError = (case t of ThrownError e \<Rightarrow> e | ThrownValue s \<Rightarrow> NativeError ''Error'' s)
      in if name lastError = ''AbortError''
         then TimeoutError (''Request timeout after '' @ decimal timeout @ ''ms'')
                (storedCause definesFields (Some lastError))
         else lastError)"

text \<open>Line 349: \<^verbatim>\<open>throw lastError || new Error('Request failed')\<close>.\<close>

definition afterLoop :: "error option \<Rightarrow> error" where
  "afterLoop lastError =
     (case lastError of Some e \<Rightarrow> e | None \<Rightarrow> NativeError ''Error'' ''Request failed'')"

text \<open>
  Lines 254 to 349: the \<^verbatim>\<open>for\<close> loop over attempts. Each attempt schedules its timer
  and runs the body of the \<^verbatim>\<open>try\<close>; the transport calls of the trace are the calls the
  body made. Then the attempt either returns the envelope, or clears the timer and
  decides between sleeping and throwing. A \<^verbatim>\<open>maxRetries\<close> that is \<^verbatim>\<open>undefined\<close> makes
  the loop condition false.
\<close>

function attemptLoop ::
  "platform \<Rightarrow> HttpClientConfig \<Rightarrow> ProcessOptions \<Rightarrow> HttpMethod \<Rightarrow> nat \<Rightarrow> RequestContext
   \<Rightarrow> RetryOptions \<Rightarrow> nat \<Rightarrow> error option \<Rightarrow> trace \<Rightarrow> (error + ResponseType) \<times> trace" where
  "attemptLoop pf config popts meth timeout requestContext ro attempt lastError tr =
     (case maxRetries ro of
        Defined n \<Rightarrow>
          if attempt \<le> n then
            (let tr1 = tr\<lparr>timers := timers tr @ [attempt]\<rparr>;
                 outcome = tryBlock pf config popts meth requestContext attempt
                             (length (calls tr1));
                 tr2 = tr1\<lparr>calls := calls tr1 @
                             (case snd outcome of None \<Rightarrow> [] | Some init \<Rightarrow> [init])\<rparr>
             in
             case fst outcome of
               Inr r \<Rightarrow> (Inr r, tr2)
             | Inl t \<Rightarrow>
                 (let tr3 = tr2\<lparr>timers := removeAll attempt (timers tr2)\<rparr>;
                      err = catchError (definesClassFields pf) timeout t
                  in
                  if attempt < n \<and> shouldRetry err attempt (Some ro) then
                    attemptLoop pf config popts meth timeout requestContext ro (attempt + 1)
                      (Some err)
                      (tr3\<lparr>sleeps := sleeps tr3 @ [calculateRetryDelay attempt (Some ro)]\<rparr>)
                  else (Inl err, tr3)))
          else (Inl (afterLoop lastError), tr)
      | _ \<Rightarrow> (Inl (afterLoop lastError), tr))"
  by pat_completeness auto
termination
  by (relation "measure (\<lambda>(pf, config, popts, meth, timeout, requestContext, ro, attempt,
        lastError, tr). case maxRetries ro of Defined n \<Rightarrow> n - attempt | _ \<Rightarrow> 0)") auto

declare attemptLoop.simps [simp del]

text \<open>Lines 135 to 153: the options of a request with their defaults.\<close>

definition methodOf :: "HttpRequestOptions \<Rightarrow> HttpMethod" where
  "methodOf options = (case opt_method options of None \<Rightarrow> GET | Some m \<Rightarrow> m)"

definition timeoutOf :: "HttpClientConfig \<Rightarrow> HttpRequestOptions \<Rightarrow> nat" where
  "timeoutOf config options =
     (case opt_timeout options of None \<Rightarrow> defaultTimeout config | Some t \<Rightarrow> t)"

definition processOptions :: "HttpRequestOptions \<Rightarrow> ProcessOptions" where
  "processOptions options =
     \<lparr> validateStatus = opt_validateStatus options, schema = opt_schema options,
       responseType = opt_responseType options \<rparr>"

text \<open>Lines 160 to 168: the request context of a resolved URL.\<close>

definition initialContext ::
  "HttpClientConfig \<Rightarrow> string \<Rightarrow> HttpRequestOptions \<Rightarrow> RequestContext" where
  "initialContext config resolvedUrl options =
     \<lparr> url = resolvedUrl, ctx_method = methodOf options,
       ctx_headers = opt_headers options @ defaultHeaders config,
       signal = opt_signal options \<rparr>"

text \<open>Lines 155 to 182: everything before the attempts. Path interpolation, the join
  with the base URL or the request hook may throw; the hook's context replaces the first
  one.\<close>

definition requestPhase ::
  "platform \<Rightarrow> HttpClientConfig \<Rightarrow> string \<Rightarrow> HttpRequestOptions \<Rightarrow> error + RequestContext" where
  "requestPhase pf config path options =
     (case generatePath path (case opt_pathParams options of None \<Rightarrow> [] | Some ps \<Rightarrow> ps) of
        Inl e \<Rightarrow> Inl e
      | Inr p \<Rightarrow>
          (case (if baseUrl config \<noteq> [] then joinUrl pf p (baseUrl config) else Inr p) of
             Inl msg \<Rightarrow> Inl (typeError msg)
           | Inr resolvedUrl \<Rightarrow>
               (let requestContext = initialContext config resolvedUrl options
                in case onRequestMiddleware config of
                     None \<Rightarrow> Inr requestContext
                   | Some mw \<Rightarrow>
                       (case mw requestContext of
                          Inr requestContext' \<Rightarrow> Inr requestContext'
                        | Inl t \<Rightarrow>
                            Inl (MiddlewareError
                                   (createErrorMessage ''Request middleware failed'' t)
                                   request (url requestContext) (ctx_method requestContext)
                                   (storedCause (definesClassFields pf) (causeOf t)))))))"

text \<open>
  \<^verbatim>\<open>fetcher(url, options)\<close>: the request phase, then the attempts under the merged
  retry options. The result is the rejection or the envelope, with the trace of the
  invocation.
\<close>

definition fetcher ::
  "platform \<Rightarrow> HttpClientConfig \<Rightarrow> string \<Rightarrow> HttpRequestOptions
   \<Rightarrow> (error + ResponseType) \<times> trace" where
  "fetcher pf config path options =
     (case requestPhase pf config path options of
        Inl e \<Rightarrow> (Inl e, noTrace)
      | Inr requestContext \<Rightarrow>
          attemptLoop pf config (processOptions options) (methodOf options)
            (timeoutOf config options) requestContext
            (mergedRetryOptions (retryOptions config) (opt_retryOptions options))
            0 None noTrace)"

section \<open>Streaming (\<^verbatim>\<open>utils/streaming.ts\<close>)\<close>

text \<open>A JavaScript number that can come out of \<^verbatim>\<open>parseInt\<close>: \<^verbatim>\<open>NaN\<close>, an integer
  that is a double, or an infinity.\<close>

datatype number = NaN | Finite int | PosInfinity | NegInfinity

text \<open>\<^verbatim>\<open>UploadStreamingEvent\<close> and \<^verbatim>\<open>DownloadStreamingEvent\<close> of \<^verbatim>\<open>types.ts\<close>.\<close>

record StreamingEvent =
  chunk :: chunk
  totalBytes :: "number option"
  transferredBytes :: nat

text \<open>What \<^verbatim>\<open>start(controller)\<close> does, in order: it calls the callback, enqueues a
  chunk, releases the reader's lock, closes the controller.\<close>

datatype action = OnChunk StreamingEvent | Enqueue chunk | ReleaseLock | Close

text \<open>The \<^verbatim>\<open>while (true)\<close> loop of \<^verbatim>\<open>createStreamingStream\<close> over the chunks the
  reader gives, with the running counter \<^verbatim>\<open>transferredBytes\<close>.\<close>

fun readLoop :: "chunk list \<Rightarrow> number option \<Rightarrow> nat \<Rightarrow> action list" where
  "readLoop [] tot transferred = []"
| "readLoop (v # rest) tot transferred =
     OnChunk \<lparr> chunk = v, totalBytes = tot, transferredBytes = transferred + length v \<rparr>
       # Enqueue v # readLoop rest tot (transferred + length v)"

text \<open>
  One run of \<^verbatim>\<open>start\<close>: the actions, and the reason \<^verbatim>\<open>start\<close> rejects with, if it
  does. The \<^verbatim>\<open>finally\<close> block runs on both ways out of the loop. The callback is taken
  to return.
\<close>

record StreamRun =
  actions :: "action list"
  rejected :: "thrown option"

definition createStreamingStream :: "source \<Rightarrow> number option \<Rightarrow> StreamRun" where
  "createStreamingStream reader tot =
     \<lparr> actions = readLoop (chunks reader) tot 0 @ [ReleaseLock, Close],
       rejected = failure reader \<rparr>"

text \<open>
  The controller of a \<^verbatim>\<open>ReadableStream\<close>, as the Streams standard has it, with the
  consumer beside it: chunks wait in a queue until the consumer reads them;
  \<^verbatim>\<open>close()\<close> closes the stream at once when the queue is empty and otherwise once it
  is drained; an error resets the queue, and is ignored when the stream is no longer
  readable. When \<^verbatim>\<open>start\<close> rejects, the platform errors the controller with the reason.
  \<open>received\<close> is what the consumer has read so far.
\<close>

datatype streamState = Readable | Closed | Errored thrown

record controller =
  queue :: "chunk list"
  closeRequested :: bool
  state :: streamState
  received :: "chunk list"

definition newController :: controller where
  "newController = \<lparr> queue = [], closeRequested = False, state = Readable, received = [] \<rparr>"

definition controllerError :: "thrown \<Rightarrow> controller \<Rightarrow> controller" where
  "controllerError t ctl =
     (if state ctl = Readable then ctl\<lparr>queue := [], state := Errored t\<rparr> else ctl)"

text \<open>The consumer reads \<open>j\<close> chunks from the queue (all of them when there are
  fewer).\<close>

definition consume :: "nat \<Rightarrow> controller \<Rightarrow> controller" where
  "consume j ctl =
     ctl\<lparr>received := received ctl @ take j (queue ctl), queue := drop j (queue ctl)\<rparr>"

text \<open>One action of \<^verbatim>\<open>start\<close> on the controller. How fast the consumer reads is not
  in the hands of the code: \<open>taken\<close> is the number of chunks it has read by the time
  \<^verbatim>\<open>start\<close> closes the controller.\<close>

fun perform :: "nat \<Rightarrow> controller \<Rightarrow> action \<Rightarrow> controller" where
  "perform taken ctl (OnChunk ev) = ctl"
| "perform taken ctl (Enqueue v) = ctl\<lparr>queue := queue ctl @ [v]\<rparr>"
| "perform taken ctl ReleaseLock = ctl"
| "perform taken ctl Close =
     (if queue (consume taken ctl) = []
      then (consume taken ctl)\<lparr>closeRequested := True, state := Closed\<rparr>
      else (consume taken ctl)\<lparr>closeRequested := True\<rparr>)"

definition settle :: "nat \<Rightarrow> StreamRun \<Rightarrow> controller" where
  "settle taken run =
     (let ctl = foldl (perform taken) newController (actions run)
      in case rejected run of None \<Rightarrow> ctl | Some t \<Rightarrow> controllerError t ctl)"

text \<open>What the consumer of the settled stream reads in all: the chunks it has read, then
  the chunks still queued, then the end of the stream, or the error of an errored
  stream.\<close>

definition delivered :: "controller \<Rightarrow> source" where
  "delivered ctl =
     \<lparr> chunks = received ctl @ queue ctl,
       failure = (case state ctl of Errored t \<Rightarrow> Some t | _ \<Rightarrow> None) \<rparr>"

text \<open>The \<^verbatim>\<open>totalBytes\<close> of \<^verbatim>\<open>toStreamableResponse\<close>, given the \<^verbatim>\<open>parseInt(s, 10)\<close>
  of the platform: an empty header value is falsy, like a missing header.\<close>

definition totalBytesOf :: "(string \<Rightarrow> number) \<Rightarrow> (string \<times> string) list \<Rightarrow> number option" where
  "totalBytesOf parseInt hs =
     (case map_of hs ''content-length'' of
        None \<Rightarrow> None
      | Some h \<Rightarrow> if h = [] then None else Some (parseInt h))"

text \<open>
  \<^verbatim>\<open>toStreamableResponse(response, onDownloadStreaming)\<close>: the response itself when
  there is no callback or no body, otherwise a new response around the instrumented
  stream with the status line and headers of the old one. The flag says whether a
  callback is given; its invocations are the \<open>OnChunk\<close> actions of the run.
\<close>

datatype streamable = Untracked Response | Tracked StreamRun int string "(string \<times> string) list"

definition toStreamableResponse :: "(string \<Rightarrow> number) \<Rightarrow> Response \<Rightarrow> bool \<Rightarrow> streamable" where
  "toStreamableResponse parseInt resp onDownloadStreaming =
     (case body resp of
        None \<Rightarrow> Untracked resp
      | Some reader \<Rightarrow>
          if \<not> onDownloadStreaming then Untracked resp
          else Tracked (createStreamingStream reader (totalBytesOf parseInt (headers resp)))
                 (status resp) (statusText resp) (headers resp))"

section \<open>Sample inputs\<close>

text \<open>
  A JSON response with status 200; a client without base URL, hooks or retry options
  around a given transport; a request without options; a request that leaves the retry
  decision to the error kind (\<^verbatim>\<open>shouldRetry: undefined\<close>).
\<close>

definition okResponse :: Response where
  "okResponse =
     \<lparr> status = 200, statusText = ''OK'',
       headers = [(''content-type'', ''application/json'')],
       body = None, readBody = (\<lambda>r. Inr (JsonData ''{}'')) \<rparr>"

definition clientOf :: "transport \<Rightarrow> HttpClientConfig" where
  "clientOf t =
     \<lparr> baseUrl = [], defaultHeaders = [], cfg_timeout = None,
       schemaValidator = createSchemaValidator (\<lambda>s. None), customFetch = t,
       retryOptions = noRetryOptions, onRequestMiddleware = None,
       onResponseMiddleware = None \<rparr>"

definition plainRequest :: HttpRequestOptions where
  "plainRequest =
     \<lparr> opt_method = None, opt_headers = [], opt_pathParams = None, opt_schema = None,
       opt_timeout = None, opt_signal = None, opt_validateStatus = None,
       opt_responseType = None, opt_retryOptions = noRetryOptions \<rparr>"

definition byKind :: HttpRequestOptions where
  "byKind = plainRequest\<lparr>opt_retryOptions := noRetryOptions\<lparr>shouldRetryFn := Undefined\<rparr>\<rparr>"

text \<open>
  A platform as Node has it, for the URLs of the samples: a URL with a scheme is
  normalised to itself, a URL without one makes \<^verbatim>\<open>new Request\<close> throw. The samples
  have no base URL; the join given here is the one of a base that is an origin (scheme
  and host, no path) with a path that starts with a slash. The argument is the flag of
  the build.
\<close>

definition absoluteUrl :: "string \<Rightarrow> bool" where
  "absoluteUrl u \<longleftrightarrow> prefix ''https://'' u \<or> prefix ''http://'' u"

definition node :: "bool \<Rightarrow> platform" where
  "node definesFields =
     \<lparr> joinUrl = (\<lambda>u base. if absoluteUrl base then Inr (base @ u) else Inl ''Invalid URL''),
       newRequest = (\<lambda>requestContext.
          if absoluteUrl (url requestContext)
          then Inr \<lparr> req_url = url requestContext, req_method = ctx_method requestContext,
                     req_headers = ctx_headers requestContext \<rparr>
          else Inl (''Failed to parse URL from '' @ url requestContext)),
       definesClassFields = definesFields \<rparr>"

text \<open>A stand-in for \<^verbatim>\<open>parseInt(s, 10)\<close>: right on one to fifteen decimal digits, whose
  value is below \<open>2^53\<close>; the samples ask for nothing else.\<close>

definition parseDigits :: "string \<Rightarrow> number" where
  "parseDigits s =
     (if s \<noteq> [] \<and> list_all isDigit s \<and> length s \<le> 15 then Finite (int (digitsValue s))
      else NaN)"

section \<open>The attempt loop, step by step\<close>

text \<open>
  One iteration of the loop, and the shape of a whole run: after \<open>k\<close> retried
  attempts the run ends at attempt \<open>a + k\<close>, with one sleep per retry and the
  transport calls of the attempts made.
\<close>

lemma tryBlock_call:
  "snd (tryBlock pf config popts meth ctx a made) =
     (case newRequest pf ctx of
        Inl msg \<Rightarrow> None
      | Inr req \<Rightarrow> Some (fetchInit req (finalSignalOf ctx a)))"
  by (simp add: tryBlock_def Let_def split: sum.splits)

lemma callsUpTo_Suc:
  "callsUpTo pf ctx a @
     (case snd (tryBlock pf config popts meth ctx a made) of None \<Rightarrow> [] | Some init \<Rightarrow> [init])
   = callsUpTo pf ctx (Suc a)"
  by (simp add: tryBlock_call callsUpTo_def split: sum.splits)

lemma attemptLoop_step:
  "maxRetries ro = Defined n \<Longrightarrow> a \<le> n \<Longrightarrow>
   attemptLoop pf config popts meth timeout ctx ro a le tr =
   (case fst (tryBlock pf config popts meth ctx a (length (calls tr))) of
      Inr r \<Rightarrow>
        (Inr r,
         tr\<lparr>timers := timers tr @ [a],
            calls := calls tr @
              (case snd (tryBlock pf config popts meth ctx a (length (calls tr))) of
                 None \<Rightarrow> [] | Some init \<Rightarrow> [init])\<rparr>)
    | Inl t \<Rightarrow>
        if a < n \<and> shouldRetry (catchError (definesClassFields pf) timeout t) a (Some ro)
        then attemptLoop pf config popts meth timeout ctx ro (Suc a) (Some (catchError (definesClassFields pf) timeout t))
               (tr\<lparr>calls := calls tr @
                     (case snd (tryBlock pf config popts meth ctx a (length (calls tr))) of
                        None \<Rightarrow> [] | Some init \<Rightarrow> [init]),
                   timers := removeAll a (timers tr),
                   sleeps := sleeps tr @ [calculateRetryDelay a (Some ro)]\<rparr>)
        else (Inl (catchError (definesClassFields pf) timeout t),
              tr\<lparr>calls := calls tr @
                    (case snd (tryBlock pf config popts meth ctx a (length (calls tr))) of
                       None \<Rightarrow> [] | Some init \<Rightarrow> [init]),
                 timers := removeAll a (timers tr)\<rparr>))"
  by (subst attemptLoop.simps) (simp add: Let_def split: sum.splits)

lemma attemptLoop_next:
  assumes mr: "maxRetries ro = Defined n" and an: "a \<le> n"
    and cs: "calls tr = callsUpTo pf ctx a"
  shows "attemptLoop pf config popts meth timeout ctx ro a le tr =
   (case attemptResult pf config popts meth ctx a of
      Inr r \<Rightarrow> (Inr r, tr\<lparr>timers := timers tr @ [a], calls := callsUpTo pf ctx (Suc a)\<rparr>)
    | Inl t \<Rightarrow>
        if a < n \<and> shouldRetry (catchError (definesClassFields pf) timeout t) a (Some ro)
        then attemptLoop pf config popts meth timeout ctx ro (Suc a) (Some (catchError (definesClassFields pf) timeout t))
               (tr\<lparr>calls := callsUpTo pf ctx (Suc a), timers := removeAll a (timers tr),
                   sleeps := sleeps tr @ [calculateRetryDelay a (Some ro)]\<rparr>)
        else (Inl (catchError (definesClassFields pf) timeout t),
              tr\<lparr>calls := callsUpTo pf ctx (Suc a), timers := removeAll a (timers tr)\<rparr>))"
proof -
  have ar: "fst (tryBlock pf config popts meth ctx a (length (calls tr)))
      = attemptResult pf config popts meth ctx a"
    using cs by (simp add: attemptResult_def)
  have c: "calls tr @
      (case snd (tryBlock pf config popts meth ctx a (length (calls tr))) of
         None \<Rightarrow> [] | Some init \<Rightarrow> [init]) = callsUpTo pf ctx (Suc a)"
    using cs callsUpTo_Suc by simp
  show ?thesis
    unfolding attemptLoop_step[OF mr an] ar c ..
qed

lemma attemptLoop_shape:
  assumes mr: "maxRetries ro = Defined n"
  shows "a \<le> n \<Longrightarrow> calls tr = callsUpTo pf ctx a \<Longrightarrow> timers tr = [] \<Longrightarrow>
    \<exists>k. a + k \<le> n \<and>
      calls (snd (attemptLoop pf config popts meth timeout ctx ro a le tr))
        = callsUpTo pf ctx (Suc (a + k)) \<and>
      sleeps (snd (attemptLoop pf config popts meth timeout ctx ro a le tr))
        = sleeps tr @ map (\<lambda>i. calculateRetryDelay i (Some ro)) [a..<a + k] \<and>
      (\<forall>i<k. \<exists>t. attemptResult pf config popts meth ctx (a + i) = Inl t \<and>
              shouldRetry (catchError (definesClassFields pf) timeout t) (a + i) (Some ro)) \<and>
      (case attemptResult pf config popts meth ctx (a + k) of
         Inr r \<Rightarrow> fst (attemptLoop pf config popts meth timeout ctx ro a le tr) = Inr r \<and>
                 timers (snd (attemptLoop pf config popts meth timeout ctx ro a le tr)) = [a + k]
       | Inl t \<Rightarrow> fst (attemptLoop pf config popts meth timeout ctx ro a le tr)
                   = Inl (catchError (definesClassFields pf) timeout t) \<and>
                 timers (snd (attemptLoop pf config popts meth timeout ctx ro a le tr)) = [] \<and>
                 (a + k = n \<or> \<not> shouldRetry (catchError (definesClassFields pf) timeout t) (a + k) (Some ro)))"
proof (induction "n - a" arbitrary: a le tr)
  case 0
  then have nl: "\<not> a < n" and an: "a = n" by simp_all
  show ?case
    apply (rule exI[of _ 0])
    using 0(2,3,4) nl
    by (cases "attemptResult pf config popts meth ctx a")
       (simp_all add: attemptLoop_next[OF mr] an)
next
  case (Suc m)
  then have lt: "a < n" by simp
  show ?case
  proof (cases "attemptResult pf config popts meth ctx a")
    case (Inr r)
    show ?thesis
      apply (rule exI[of _ 0])
      using Suc.prems Inr by (simp add: attemptLoop_next[OF mr])
  next
    case (Inl t)
    show ?thesis
    proof (cases "shouldRetry (catchError (definesClassFields pf) timeout t) a (Some ro)")
      case False
      show ?thesis
        apply (rule exI[of _ 0])
        using Suc.prems Inl False by (simp add: attemptLoop_next[OF mr])
    next
      case True
      let ?tr = "tr\<lparr>calls := callsUpTo pf ctx (Suc a), timers := removeAll a (timers tr),
                   sleeps := sleeps tr @ [calculateRetryDelay a (Some ro)]\<rparr>"
      let ?R = "attemptLoop pf config popts meth timeout ctx ro (Suc a)
                  (Some (catchError (definesClassFields pf) timeout t)) ?tr"
      have step: "attemptLoop pf config popts meth timeout ctx ro a le tr = ?R"
        using Suc.prems Inl True lt by (simp add: attemptLoop_next[OF mr])
      have m: "m = n - Suc a" using Suc.hyps(2) by simp
      have le': "Suc a \<le> n" using lt by simp
      have c': "calls ?tr = callsUpTo pf ctx (Suc a)" by simp
      have t': "timers ?tr = []" using Suc.prems(3) by simp
      from Suc.hyps(1)[OF m le' c' t', of "Some (catchError (definesClassFields pf) timeout t)"]
      obtain k where k: "Suc a + k \<le> n"
        "calls (snd ?R) = callsUpTo pf ctx (Suc (Suc a + k))"
        "sleeps (snd ?R) = sleeps ?tr @ map (\<lambda>i. calculateRetryDelay i (Some ro)) [Suc a..<Suc a + k]"
        "\<forall>i<k. \<exists>t. attemptResult pf config popts meth ctx (Suc a + i) = Inl t \<and>
                shouldRetry (catchError (definesClassFields pf) timeout t) (Suc a + i) (Some ro)"
        "(case attemptResult pf config popts meth ctx (Suc a + k) of
           Inr r \<Rightarrow> fst ?R = Inr r \<and> timers (snd ?R) = [Suc a + k]
         | Inl t' \<Rightarrow> fst ?R = Inl (catchError (definesClassFields pf) timeout t') \<and> timers (snd ?R) = [] \<and>
                 (Suc a + k = n \<or> \<not> shouldRetry (catchError (definesClassFields pf) timeout t') (Suc a + k) (Some ro)))"
        by blast
      have r2: "[a..<a + Suc k] = a # [Suc a..<Suc a + k]"
        by (simp add: upt_conv_Cons)
      have retried: "\<forall>i<Suc k. \<exists>t. attemptResult pf config popts meth ctx (a + i) = Inl t \<and>
                shouldRetry (catchError (definesClassFields pf) timeout t) (a + i) (Some ro)"
      proof (intro allI impI)
        fix i assume "i < Suc k"
        then show "\<exists>t. attemptResult pf config popts meth ctx (a + i) = Inl t \<and>
                shouldRetry (catchError (definesClassFields pf) timeout t) (a + i) (Some ro)"
          using Inl True k(4) by (cases i) auto
      qed
      show ?thesis
        apply (rule exI[of _ "Suc k"])
        unfolding step
        apply (intro conjI)
        subgoal using k(1) by simp
        subgoal using k(2) by simp
        subgoal using k(3) by (simp only: r2) simp
        subgoal using retried .
        subgoal using k(5) by (simp split: sum.splits)
        done
    qed
  qed
qed

lemma fetcher_loop:
  "requestPhase pf config path options = Inr ctx \<Longrightarrow>
   fetcher pf config path options =
     attemptLoop pf config (processOptions options) (methodOf options) (timeoutOf config options) ctx
       (mergedRetryOptions (retryOptions config) (opt_retryOptions options)) 0 None noTrace"
  by (simp add: fetcher_def)

lemma fetcher_shape:
  assumes rp: "requestPhase pf config path options = Inr ctx"
    and mr: "maxRetries (mergedRetryOptions (retryOptions config) (opt_retryOptions options)) = Defined n"
  shows "\<exists>k. k \<le> n \<and>
      calls (snd (fetcher pf config path options)) = callsUpTo pf ctx (Suc k) \<and>
      sleeps (snd (fetcher pf config path options))
        = map (\<lambda>i. calculateRetryDelay i
                 (Some (mergedRetryOptions (retryOptions config) (opt_retryOptions options)))) [0..<k] \<and>
      (\<forall>i<k. \<exists>t. attemptResult pf config (processOptions options) (methodOf options) ctx i = Inl t \<and>
              shouldRetry (catchError (definesClassFields pf) (timeoutOf config options) t) i
                (Some (mergedRetryOptions (retryOptions config) (opt_retryOptions options)))) \<and>
      (case attemptResult pf config (processOptions options) (methodOf options) ctx k of
         Inr r \<Rightarrow> fst (fetcher pf config path options) = Inr r \<and>
                 timers (snd (fetcher pf config path options)) = [k]
       | Inl t \<Rightarrow> fst (fetcher pf config path options)
                   = Inl (catchError (definesClassFields pf) (timeoutOf config options) t) \<and>
                 timers (snd (fetcher pf config path options)) = [] \<and>
                 (k = n \<or> \<not> shouldRetry (catchError (definesClassFields pf) (timeoutOf config options) t) k
                    (Some (mergedRetryOptions (retryOptions config) (opt_retryOptions options)))))"
proof -
  have c0: "calls noTrace = callsUpTo pf ctx 0"
    by (simp add: noTrace_def callsUpTo_def split: sum.splits)
  have t0: "timers noTrace = []" by (simp add: noTrace_def)
  from attemptLoop_shape[OF mr _ c0 t0, where config=config
      and popts="processOptions options" and meth="methodOf options"
      and timeout="timeoutOf config options" and le=None]
  show ?thesis
    unfolding fetcher_loop[OF rp] by (simp add: noTrace_def cong: sum.case_cong)
qed

section \<open>Evaluating the samples\<close>

lemmas eval_defs = fetcher_def requestPhase_def initialContext_def methodOf_def timeoutOf_def
  processOptions_def defaultTimeout_def clientOf_def plainRequest_def byKind_def noTrace_def
  mergedRetryOptions_def DEFAULT_RETRY_OPTIONS_def noRetryOptions_def
  generatePath_def wordChar_def getParam_def ownProperties_def
  node_def absoluteUrl_def typeError_def storedCause_def
  tryBlock_def fetchInit_def finalSignalOf_def catchError_def shouldRetry_def calculateRetryDelay_def
  processResponse_def decodeBody_def headerIncludes_def okResponse_def createErrorMessage_def
  newHttpError_def showNumber_def decimal.simps digitChar_def

lemma callsUpTo_built:
  "newRequest pf ctx = Inr req \<Longrightarrow>
   callsUpTo pf ctx m = map (\<lambda>i. fetchInit req (finalSignalOf ctx i)) [0..<m]"
  by (simp add: callsUpTo_def)



section \<open>Timers\<close>

text \<open>
  C6 (the code departs from the claim). For an invocation that reaches the attempt loop:
  when it rejects, no timer is left; when it returns an envelope, the timer of the
  successful attempt is still scheduled. Only the \<open>catch\<close> clause clears the timer.
\<close>

theorem timer_left_after_success:
  assumes rp: "requestPhase pf config path options = Inr ctx"
    and mr: "maxRetries (mergedRetryOptions (retryOptions config) (opt_retryOptions options)) = Defined n"
  shows "timers (snd (fetcher pf config path options)) =
           (case fst (fetcher pf config path options) of
              Inr r \<Rightarrow> [length (sleeps (snd (fetcher pf config path options)))]
            | Inl e \<Rightarrow> [])"
proof -
  let ?F = "fetcher pf config path options"
  from fetcher_shape[OF rp mr] obtain k where
    k: "sleeps (snd ?F) = map (\<lambda>i. calculateRetryDelay i
          (Some (mergedRetryOptions (retryOptions config) (opt_retryOptions options)))) [0..<k]"
       "case attemptResult pf config (processOptions options) (methodOf options) ctx k of
         Inr r \<Rightarrow> fst ?F = Inr r \<and> timers (snd ?F) = [k]
       | Inl t \<Rightarrow> fst ?F = Inl (catchError (definesClassFields pf) (timeoutOf config options) t) \<and>
                 timers (snd ?F) = [] \<and>
                 (k = n \<or> \<not> shouldRetry (catchError (definesClassFields pf) (timeoutOf config options) t) k
                    (Some (mergedRetryOptions (retryOptions config) (opt_retryOptions options))))"
    by blast
  have "length (sleeps (snd ?F)) = k" using k(1) by simp
  then show ?thesis using k(2) by (auto split: sum.splits)
qed

lemma first_attempt_succeeds:
  "fetcher (node df) (clientOf (\<lambda>i init. Inr okResponse)) ''https://api.example.com/users'' plainRequest =
     (Inr \<lparr> data = JsonData ''{}'', env_status = 200, env_statusText = ''OK'',
          env_headers = [(''content-type'', ''application/json'')], env_method = GET,
          env_url = ''https://api.example.com/users'', raw = okResponse \<rparr>,
      \<lparr> calls = [\<lparr> init_url = ''https://api.example.com/users'', init_method = GET,
                    init_headers = [], init_signal = ControllerSignal \<rparr>],
        sleeps = [], timers = [0] \<rparr>)"
  by (simp add: eval_defs attemptLoop_step[where n=3])

text \<open>
  C6, an instance: a first attempt that succeeds leaves timer \<open>0\<close> behind.
\<close>

theorem timer_left_after_success_witness:
  "requestPhase (node False) (clientOf (\<lambda>i init. Inr okResponse)) ''https://api.example.com/users''
       plainRequest
     = Inr \<lparr> url = ''https://api.example.com/users'', ctx_method = GET, ctx_headers = [],
            signal = None \<rparr> \<and>
   fst (fetcher (node False) (clientOf (\<lambda>i init. Inr okResponse)) ''https://api.example.com/users''
          plainRequest) =
     Inr \<lparr> data = JsonData ''{}'', env_status = 200, env_statusText = ''OK'',
          env_headers = [(''content-type'', ''application/json'')], env_method = GET,
          env_url = ''https://api.example.com/users'', raw = okResponse \<rparr> \<and>
   timers (snd (fetcher (node False) (clientOf (\<lambda>i init. Inr okResponse))
          ''https://api.example.com/users'' plainRequest)) = [0]"
proof -
  let ?c = "clientOf (\<lambda>i init. Inr okResponse)"
  let ?ctx = "\<lparr> url = ''https://api.example.com/users'', ctx_method = GET, ctx_headers = [],
               signal = None \<rparr>"
  have rp: "requestPhase (node False) ?c ''https://api.example.com/users'' plainRequest = Inr ?ctx"
    by (simp add: eval_defs)
  have mr: "maxRetries (mergedRetryOptions (retryOptions ?c) (opt_retryOptions plainRequest)) = Defined 3"
    by (simp add: eval_defs)
  from timer_left_after_success[OF rp mr] rp show ?thesis
    by (simp add: first_attempt_succeeds)
qed

section \<open>Backoff delays\<close>

lemma always_503_run:
  "fetcher (node df) (clientOf (\<lambda>i init. Inr (okResponse\<lparr>status := 503\<rparr>)))
       ''https://api.example.com/users'' plainRequest =
     (Inl (HttpError ''HTTP 503 OK: HTTP 503 OK (GET https://api.example.com/users)'' 503 ''OK''
             (JsonData ''{}'') ''https://api.example.com/users'' ''GET''),
      \<lparr> calls = [\<lparr> init_url = ''https://api.example.com/users'', init_method = GET,
                    init_headers = [], init_signal = ControllerSignal \<rparr>,
                 \<lparr> init_url = ''https://api.example.com/users'', init_method = GET,
                    init_headers = [], init_signal = ControllerSignal \<rparr>,
                 \<lparr> init_url = ''https://api.example.com/users'', init_method = GET,
                    init_headers = [], init_signal = ControllerSignal \<rparr>,
                 \<lparr> init_url = ''https://api.example.com/users'', init_method = GET,
                    init_headers = [], init_signal = ControllerSignal \<rparr>],
        sleeps = [300, 600, 1200], timers = [] \<rparr>)"
  by (simp add: eval_defs attemptLoop_step[where n=3])

text \<open>
  C7 (as amended). With \<open>retryDelay = d\<close>, \<open>backoffFactor = b\<close> and
  \<open>maxRetryDelay = m\<close> in the merged options, the delay computed for attempt \<open>i\<close> is
  \<open>min (d * b ^ i) m\<close>, and it is the \<open>i\<close>-th delay the loop sleeps. The delay is
  non-decreasing in \<open>i\<close> when \<open>0 \<le> d\<close> and \<open>1 \<le> b\<close>.
\<close>

theorem backoff_delay:
  assumes d: "retryDelay (mergedRetryOptions (retryOptions config) (opt_retryOptions options)) = Defined d"
    and b: "backoffFactor (mergedRetryOptions (retryOptions config) (opt_retryOptions options)) = Defined b"
    and m: "maxRetryDelay (mergedRetryOptions (retryOptions config) (opt_retryOptions options)) = Defined m"
  shows "(\<forall>i. calculateRetryDelay i
              (Some (mergedRetryOptions (retryOptions config) (opt_retryOptions options)))
            = min (d * b ^ i) m) \<and>
         (0 \<le> d \<and> 1 \<le> b \<longrightarrow>
            (\<forall>i. min (d * b ^ i) m \<le> min (d * b ^ Suc i) m)) \<and>
         (\<forall>ctx n. requestPhase pf config path options = Inr ctx \<and>
            maxRetries (mergedRetryOptions (retryOptions config) (opt_retryOptions options)) = Defined n
            \<longrightarrow> (\<forall>i < length (sleeps (snd (fetcher pf config path options))).
                   sleeps (snd (fetcher pf config path options)) ! i = min (d * b ^ i) m))"
proof -
  let ?ro = "mergedRetryOptions (retryOptions config) (opt_retryOptions options)"
  let ?F = "fetcher pf config path options"
  have f: "calculateRetryDelay j (Some ?ro) = min (d * b ^ j) m" for j
    using d b m by (simp add: calculateRetryDelay_def Let_def)
  have mono: "min (d * b ^ i) m \<le> min (d * b ^ Suc i) m" if "0 \<le> d" "1 \<le> b" for i
  proof -
    have "d * b ^ i \<le> d * b ^ Suc i"
      using that by (intro mult_left_mono power_increasing) auto
    then show ?thesis by (auto simp: min_def)
  qed
  have sl: "sleeps (snd ?F) ! i = min (d * b ^ i) m"
    if rp: "requestPhase pf config path options = Inr ctx"
      and mr: "maxRetries ?ro = Defined n" and i: "i < length (sleeps (snd ?F))" for ctx n i
  proof -
    from fetcher_shape[OF rp mr] obtain k where
      k: "sleeps (snd ?F) = map (\<lambda>i. calculateRetryDelay i (Some ?ro)) [0..<k]" by blast
    show ?thesis using i unfolding k by (simp add: f)
  qed
  show ?thesis using f mono sl by blast
qed

text \<open>
  C7, an instance: the default policy, whose third sleep is 1200 and whose delay is
  capped at 30000 from attempt 7 on.
\<close>

theorem backoff_delay_witness:
  "retryDelay (mergedRetryOptions
      (retryOptions (clientOf (\<lambda>i init. Inr (okResponse\<lparr>status := 503\<rparr>))))
      (opt_retryOptions plainRequest)) = Defined 300 \<and>
   backoffFactor (mergedRetryOptions
      (retryOptions (clientOf (\<lambda>i init. Inr (okResponse\<lparr>status := 503\<rparr>))))
      (opt_retryOptions plainRequest)) = Defined 2 \<and>
   maxRetryDelay (mergedRetryOptions
      (retryOptions (clientOf (\<lambda>i init. Inr (okResponse\<lparr>status := 503\<rparr>))))
      (opt_retryOptions plainRequest)) = Defined 30000 \<and>
   calculateRetryDelay 7 (Some (mergedRetryOptions
      (retryOptions (clientOf (\<lambda>i init. Inr (okResponse\<lparr>status := 503\<rparr>))))
      (opt_retryOptions plainRequest))) = 30000 \<and>
   min (300 * 2 ^ 1) 30000 \<le> min (300 * 2 ^ Suc 1) (30000::real) \<and>
   sleeps (snd (fetcher (node False) (clientOf (\<lambda>i init. Inr (okResponse\<lparr>status := 503\<rparr>)))
      ''https://api.example.com/users'' plainRequest)) ! 2 = 1200"
proof -
  let ?c = "clientOf (\<lambda>i init. Inr (okResponse\<lparr>status := 503\<rparr>))"
  let ?ro = "mergedRetryOptions (retryOptions ?c) (opt_retryOptions plainRequest)"
  let ?u = "''https://api.example.com/users''"
  have d: "retryDelay ?ro = Defined 300" by (simp add: eval_defs)
  have b: "backoffFactor ?ro = Defined 2" by (simp add: eval_defs)
  have m: "maxRetryDelay ?ro = Defined 30000" by (simp add: eval_defs)
  have rp: "requestPhase (node False) ?c ?u plainRequest
      = Inr \<lparr> url = ?u, ctx_method = GET, ctx_headers = [], signal = None \<rparr>"
    by (simp add: eval_defs)
  have mr: "maxRetries ?ro = Defined 3" by (simp add: eval_defs)
  have len: "2 < length (sleeps (snd (fetcher (node False) ?c ?u plainRequest)))"
    by (simp add: always_503_run)
  note th = backoff_delay[OF d b m, of "node False" ?u]
  have 1: "calculateRetryDelay 7 (Some ?ro) = 30000" using th by simp
  have 2: "min (300 * 2 ^ 1) 30000 \<le> min (300 * 2 ^ Suc 1) (30000::real)" by simp
  have 3: "sleeps (snd (fetcher (node False) ?c ?u plainRequest)) ! 2 = 1200"
    using th rp mr len by simp
  show ?thesis using d b m 1 2 3 by blast
qed

text \<open>
  C7 as stated fails for a backoff factor below one: with the default delay and cap
  and \<open>backoffFactor = 1/2\<close> the delay falls from attempt 0 to attempt 1, below the
  cap.
\<close>

theorem backoff_delay_counterexample:
  "calculateRetryDelay 1 (Some (mergedRetryOptions noRetryOptions
       (noRetryOptions\<lparr>backoffFactor := Defined (1/2)\<rparr>)))
     < calculateRetryDelay 0 (Some (mergedRetryOptions noRetryOptions
       (noRetryOptions\<lparr>backoffFactor := Defined (1/2)\<rparr>))) \<and>
   calculateRetryDelay 0 (Some (mergedRetryOptions noRetryOptions
       (noRetryOptions\<lparr>backoffFactor := Defined (1/2)\<rparr>))) < 30000 \<and>
   maxRetryDelay (mergedRetryOptions noRetryOptions
       (noRetryOptions\<lparr>backoffFactor := Defined (1/2)\<rparr>)) = Defined 30000"
  by (simp add: calculateRetryDelay_def mergedRetryOptions_def DEFAULT_RETRY_OPTIONS_def noRetryOptions_def)

section \<open>Transport calls and retries\<close>


lemma attemptLoop_skipped:
  "(\<forall>n. maxRetries ro \<noteq> Defined n) \<Longrightarrow>
   attemptLoop pf config popts meth timeout ctx ro a le tr = (Inl (afterLoop le), tr)"
  by (subst attemptLoop.simps) (simp split: js_field.splits)





section \<open>Retry eligibility\<close>

text \<open>
  C2 (the code departs from the claim). When neither the client configuration nor the
  request options carry a \<open>shouldRetry\<close> property, the merged options take the
  predicate of \<open>DEFAULT_RETRY_OPTIONS\<close>, which accepts every error: whatever the
  error kind, status list and network flag, the retry decision is yes. A
  \<open>SchemaValidationError\<close> is retried like any other.
\<close>

theorem default_policy_retries_every_error:
  "shouldRetry err retryCount
     (Some (mergedRetryOptions (c\<lparr>shouldRetryFn := Absent\<rparr>) (r\<lparr>shouldRetryFn := Absent\<rparr>)))"
  by (simp add: shouldRetry_def mergedRetryOptions_def DEFAULT_RETRY_OPTIONS_def)

section \<open>Aborted attempts\<close>

text \<open>
  C4 (the code departs from the claim). The \<open>catch\<close> clause looks at the name of the
  error only: an \<open>AbortError\<close> becomes a \<open>TimeoutError\<close> with the message of a
  timeout also when the caller's own signal aborted the attempt. Its cause is what the
  build keeps of the \<open>AbortError\<close>.
\<close>

theorem caller_abort_becomes_TimeoutError:
  "catchError definesFields timeout (ThrownError (AbortError ByCaller)) =
     TimeoutError (''Request timeout after '' @ decimal timeout @ ''ms'')
       (storedCause definesFields (Some (AbortError ByCaller)))"
  by (simp add: catchError_def)

section \<open>Errors of the response hook\<close>

text \<open>
  C3 (the code departs from the claim). The response hook runs inside the \<open>try\<close>
  statement of the attempt, so the \<open>MiddlewareError\<close> made of what it throws is
  caught by the \<open>catch\<close> clause like any other failure of the attempt: when the
  attempt is not the last one and the retry decision accepts the error, the loop sleeps
  and runs the next attempt, after one more transport call. The cause of the error is
  what the build keeps of the thrown error.
\<close>

theorem response_hook_error_is_retried:
  assumes nr: "newRequest pf ctx = Inr req"
    and cf: "customFetch config (length (calls tr)) (fetchInit req (finalSignalOf ctx a)) = Inr resp"
    and pr: "processResponse (definesClassFields pf) resp popts meth (url ctx)
               (schemaValidator config) = Inr responseData"
    and mw: "onResponseMiddleware config = Some hook"
    and th: "hook responseData = Inl t"
    and mr: "maxRetries ro = Defined n"
    and an: "a < n"
    and sr: "shouldRetry
               (MiddlewareError (createErrorMessage ''Response middleware failed'' t) response
                  (url ctx) meth (storedCause (definesClassFields pf) (causeOf t)))
               a (Some ro)"
  shows "attemptLoop pf config popts meth timeout ctx ro a lastError tr =
         attemptLoop pf config popts meth timeout ctx ro (Suc a)
           (Some (MiddlewareError (createErrorMessage ''Response middleware failed'' t) response
                    (url ctx) meth (storedCause (definesClassFields pf) (causeOf t))))
           (tr\<lparr>calls := calls tr @ [fetchInit req (finalSignalOf ctx a)],
               timers := removeAll a (timers tr),
               sleeps := sleeps tr @ [calculateRetryDelay a (Some ro)]\<rparr>)"
proof -
  let ?e = "MiddlewareError (createErrorMessage ''Response middleware failed'' t) response
              (url ctx) meth (storedCause (definesClassFields pf) (causeOf t))"
  have tb: "tryBlock pf config popts meth ctx a (length (calls tr))
      = (Inl (ThrownError ?e), Some (fetchInit req (finalSignalOf ctx a)))"
    by (simp add: tryBlock_def Let_def nr cf pr mw th)
  have ce: "catchError (definesClassFields pf) timeout (ThrownError ?e) = ?e"
    by (simp add: catchError_def)
  have le: "a \<le> n" using an by simp
  show ?thesis
    unfolding attemptLoop_step[OF mr le] tb using an sr by (simp add: ce)
qed

lemma failing_hook_run:
  "fetcher (node df)
     ((clientOf (\<lambda>i init. Inr okResponse))
        \<lparr>onResponseMiddleware := Some (\<lambda>r. Inl (ThrownError (NativeError ''Error'' ''boom'')))\<rparr>)
     ''https://api.example.com/users''
     (plainRequest\<lparr>opt_retryOptions := noRetryOptions\<lparr>shouldRetryFn := Defined (\<lambda>e k. True)\<rparr>\<rparr>) =
     (Inl (MiddlewareError ''Response middleware failed: boom'' response
             ''https://api.example.com/users'' GET
             (storedCause df (Some (NativeError ''Error'' ''boom'')))),
      \<lparr> calls = [\<lparr> init_url = ''https://api.example.com/users'', init_method = GET,
                    init_headers = [], init_signal = ControllerSignal \<rparr>,
                 \<lparr> init_url = ''https://api.example.com/users'', init_method = GET,
                    init_headers = [], init_signal = ControllerSignal \<rparr>,
                 \<lparr> init_url = ''https://api.example.com/users'', init_method = GET,
                    init_headers = [], init_signal = ControllerSignal \<rparr>,
                 \<lparr> init_url = ''https://api.example.com/users'', init_method = GET,
                    init_headers = [], init_signal = ControllerSignal \<rparr>],
        sleeps = [300, 600, 1200], timers = [] \<rparr>)"
  by (simp add: eval_defs attemptLoop_step[where n=3])

text \<open>
  C3, an instance: a response hook that always throws, under a policy whose own
  predicate accepts every error. The first attempt is followed by a second one, and the
  \<open>MiddlewareError\<close> reaches the caller after four transport calls and three
  sleeps.
\<close>

theorem response_hook_error_is_retried_witness:
  "newRequest (node False)
       \<lparr> url = ''https://api.example.com/users'', ctx_method = GET, ctx_headers = [],
          signal = None \<rparr>
     = Inr \<lparr> req_url = ''https://api.example.com/users'', req_method = GET, req_headers = [] \<rparr> \<and>
   shouldRetry
     (MiddlewareError ''Response middleware failed: boom'' response
        ''https://api.example.com/users'' GET (Some (NativeError ''Error'' ''boom'')))
     0 (Some (mergedRetryOptions noRetryOptions
                (noRetryOptions\<lparr>shouldRetryFn := Defined (\<lambda>e k. True)\<rparr>))) \<and>
   attemptLoop (node False)
       ((clientOf (\<lambda>i init. Inr okResponse))
          \<lparr>onResponseMiddleware := Some (\<lambda>r. Inl (ThrownError (NativeError ''Error'' ''boom'')))\<rparr>)
       \<lparr> validateStatus = None, schema = None, responseType = None \<rparr> GET 30000
       \<lparr> url = ''https://api.example.com/users'', ctx_method = GET, ctx_headers = [],
          signal = None \<rparr>
       (mergedRetryOptions noRetryOptions
          (noRetryOptions\<lparr>shouldRetryFn := Defined (\<lambda>e k. True)\<rparr>))
       0 None noTrace
   = attemptLoop (node False)
       ((clientOf (\<lambda>i init. Inr okResponse))
          \<lparr>onResponseMiddleware := Some (\<lambda>r. Inl (ThrownError (NativeError ''Error'' ''boom'')))\<rparr>)
       \<lparr> validateStatus = None, schema = None, responseType = None \<rparr> GET 30000
       \<lparr> url = ''https://api.example.com/users'', ctx_method = GET, ctx_headers = [],
          signal = None \<rparr>
       (mergedRetryOptions noRetryOptions
          (noRetryOptions\<lparr>shouldRetryFn := Defined (\<lambda>e k. True)\<rparr>))
       (Suc 0)
       (Some (MiddlewareError ''Response middleware failed: boom'' response
                ''https://api.example.com/users'' GET (Some (NativeError ''Error'' ''boom''))))
       \<lparr> calls = [\<lparr> init_url = ''https://api.example.com/users'', init_method = GET,
                     init_headers = [], init_signal = ControllerSignal \<rparr>],
         sleeps = [300], timers = [] \<rparr> \<and>
   fetcher (node False)
     ((clientOf (\<lambda>i init. Inr okResponse))
        \<lparr>onResponseMiddleware := Some (\<lambda>r. Inl (ThrownError (NativeError ''Error'' ''boom'')))\<rparr>)
     ''https://api.example.com/users''
     (plainRequest\<lparr>opt_retryOptions := noRetryOptions\<lparr>shouldRetryFn := Defined (\<lambda>e k. True)\<rparr>\<rparr>) =
     (Inl (MiddlewareError ''Response middleware failed: boom'' response
             ''https://api.example.com/users'' GET (Some (NativeError ''Error'' ''boom''))),
      \<lparr> calls = [\<lparr> init_url = ''https://api.example.com/users'', init_method = GET,
                    init_headers = [], init_signal = ControllerSignal \<rparr>,
                 \<lparr> init_url = ''https://api.example.com/users'', init_method = GET,
                    init_headers = [], init_signal = ControllerSignal \<rparr>,
                 \<lparr> init_url = ''https://api.example.com/users'', init_method = GET,
                    init_headers = [], init_signal = ControllerSignal \<rparr>,
                 \<lparr> init_url = ''https://api.example.com/users'', init_method = GET,
                    init_headers = [], init_signal = ControllerSignal \<rparr>],
        sleeps = [300, 600, 1200], timers = [] \<rparr>)"
proof -
  let ?u = "''https://api.example.com/users''"
  let ?boom = "NativeError ''Error'' ''boom''"
  let ?hook = "\<lambda>r::ResponseType. (Inl (ThrownError ?boom) :: thrown + ResponseType)"
  let ?c = "(clientOf (\<lambda>i init. Inr okResponse))\<lparr>onResponseMiddleware := Some ?hook\<rparr>"
  let ?ctx = "\<lparr> url = ?u, ctx_method = GET, ctx_headers = [], signal = None \<rparr>"
  let ?req = "\<lparr> req_url = ?u, req_method = GET, req_headers = [] \<rparr>"
  let ?popts = "\<lparr> validateStatus = None, schema = None, responseType = None \<rparr>"
  let ?ro = "mergedRetryOptions noRetryOptions
               (noRetryOptions\<lparr>shouldRetryFn := Defined (\<lambda>e k. True)\<rparr>)"
  let ?env = "\<lparr> data = JsonData ''{}'', env_status = 200, env_statusText = ''OK'',
          env_headers = [(''content-type'', ''application/json'')], env_method = GET,
          env_url = ?u, raw = okResponse \<rparr>"
  have nr: "newRequest (node False) ?ctx = Inr ?req" by (simp add: eval_defs)
  have cf: "customFetch ?c (length (calls noTrace)) (fetchInit ?req (finalSignalOf ?ctx 0))
      = Inr okResponse" by (simp add: clientOf_def)
  have pr: "processResponse (definesClassFields (node False)) okResponse ?popts GET (url ?ctx)
      (schemaValidator ?c) = Inr ?env" by (simp add: eval_defs)
  have mw: "onResponseMiddleware ?c = Some ?hook" by (simp add: clientOf_def)
  have th: "?hook ?env = Inl (ThrownError ?boom)" by simp
  have mr: "maxRetries ?ro = Defined 3" by (simp add: eval_defs)
  have sr: "shouldRetry
      (MiddlewareError (createErrorMessage ''Response middleware failed'' (ThrownError ?boom))
         response (url ?ctx) GET
         (storedCause (definesClassFields (node False)) (causeOf (ThrownError ?boom))))
      0 (Some ?ro)" by (simp add: eval_defs)
  have sr': "shouldRetry
      (MiddlewareError ''Response middleware failed: boom'' response ?u GET (Some ?boom))
      0 (Some ?ro)" by (simp add: eval_defs)
  from response_hook_error_is_retried[OF nr cf pr mw th mr _ sr, of 30000 None]
  have step: "attemptLoop (node False) ?c ?popts GET 30000 ?ctx ?ro 0 None noTrace
     = attemptLoop (node False) ?c ?popts GET 30000 ?ctx ?ro (Suc 0)
         (Some (MiddlewareError ''Response middleware failed: boom'' response ?u GET (Some ?boom)))
         \<lparr> calls = [\<lparr> init_url = ?u, init_method = GET, init_headers = [],
                       init_signal = ControllerSignal \<rparr>], sleeps = [300], timers = [] \<rparr>"
    by (simp add: noTrace_def createErrorMessage_def storedCause_def node_def fetchInit_def
        finalSignalOf_def calculateRetryDelay_def mergedRetryOptions_def
        DEFAULT_RETRY_OPTIONS_def noRetryOptions_def)
  show ?thesis
    using nr sr' step by (simp add: failing_hook_run storedCause_def)
qed

section \<open>A caller's signal that is already aborted\<close>

text \<open>
  C5 (as amended). When the caller's signal is already aborted as an attempt starts and
  the request object can be built, the attempt hands that signal itself to the
  transport and calls it, and a rejection of the call is the failure of the attempt. An
  invocation that reaches the loop with \<open>maxRetries\<close> a number, a request object
  that can be built and a signal aborted from the start makes at least one transport
  call, and every call of an attempt that starts with the signal aborted carries the
  caller's signal.
\<close>

theorem aborted_signal_still_reaches_transport:
  "(signal ctx = Some sig \<and> sig a \<and> newRequest pf ctx = Inr req \<longrightarrow>
      snd (tryBlock pf config popts meth ctx a made) = Some (fetchInit req CallerSignal) \<and>
      init_signal (fetchInit req CallerSignal) = CallerSignal \<and>
      (\<forall>t. customFetch config made (fetchInit req CallerSignal) = Inl t \<longrightarrow>
           fst (tryBlock pf config popts meth ctx a made) = Inl t)) \<and>
   (requestPhase pf config path options = Inr ctx \<and>
    maxRetries (mergedRetryOptions (retryOptions config) (opt_retryOptions options)) = Defined n \<and>
    signal ctx = Some sig \<and> sig 0 \<and> newRequest pf ctx = Inr req \<longrightarrow>
      calls (snd (fetcher pf config path options)) \<noteq> [] \<and>
      (\<forall>i < length (calls (snd (fetcher pf config path options))).
          sig i \<longrightarrow> calls (snd (fetcher pf config path options)) ! i = fetchInit req CallerSignal))"
proof (rule conjI; rule impI)
  assume h: "signal ctx = Some sig \<and> sig a \<and> newRequest pf ctx = Inr req"
  then have fs: "finalSignalOf ctx a = CallerSignal" by (simp add: finalSignalOf_def)
  show "snd (tryBlock pf config popts meth ctx a made) = Some (fetchInit req CallerSignal) \<and>
      init_signal (fetchInit req CallerSignal) = CallerSignal \<and>
      (\<forall>t. customFetch config made (fetchInit req CallerSignal) = Inl t \<longrightarrow>
           fst (tryBlock pf config popts meth ctx a made) = Inl t)"
    using h fs by (simp add: tryBlock_def Let_def fetchInit_def)
next
  let ?F = "fetcher pf config path options"
  assume h: "requestPhase pf config path options = Inr ctx \<and>
    maxRetries (mergedRetryOptions (retryOptions config) (opt_retryOptions options)) = Defined n \<and>
    signal ctx = Some sig \<and> sig 0 \<and> newRequest pf ctx = Inr req"
  then have rp: "requestPhase pf config path options = Inr ctx"
    and mr: "maxRetries (mergedRetryOptions (retryOptions config) (opt_retryOptions options)) = Defined n"
    and sg: "signal ctx = Some sig" and nr: "newRequest pf ctx = Inr req" by simp_all
  from fetcher_shape[OF rp mr] obtain k where
    k: "calls (snd ?F) = callsUpTo pf ctx (Suc k)" by blast
  have c: "calls (snd ?F) = map (\<lambda>i. fetchInit req (finalSignalOf ctx i)) [0..<Suc k]"
    using k by (simp only: callsUpTo_built[OF nr])
  have ne: "calls (snd ?F) \<noteq> []" unfolding c by simp
  have each: "calls (snd ?F) ! i = fetchInit req CallerSignal"
    if "i < length (calls (snd ?F))" "sig i" for i
    using that sg unfolding c by (simp add: finalSignalOf_def del: upt_Suc)
  show "calls (snd ?F) \<noteq> [] \<and>
      (\<forall>i < length (calls (snd ?F)). sig i \<longrightarrow> calls (snd ?F) ! i = fetchInit req CallerSignal)"
    using ne each by blast
qed

text \<open>
  C5, an instance: a signal aborted from the start and a transport that rejects an
  aborted signal with an \<open>AbortError\<close>.
\<close>

theorem aborted_signal_still_reaches_transport_witness:
  "requestPhase (node False)
     (clientOf (\<lambda>i init. if init_signal init = CallerSignal
                           then Inl (ThrownError (AbortError ByCaller)) else Inr okResponse))
     ''https://api.example.com/users'' (byKind\<lparr>opt_signal := Some (\<lambda>i. True)\<rparr>)
     = Inr \<lparr> url = ''https://api.example.com/users'', ctx_method = GET, ctx_headers = [],
            signal = Some (\<lambda>i. True) \<rparr> \<and>
   snd (tryBlock (node False)
     (clientOf (\<lambda>i init. if init_signal init = CallerSignal
                           then Inl (ThrownError (AbortError ByCaller)) else Inr okResponse))
     \<lparr> validateStatus = None, schema = None, responseType = None \<rparr> GET
     \<lparr> url = ''https://api.example.com/users'', ctx_method = GET, ctx_headers = [],
        signal = Some (\<lambda>i. True) \<rparr> 0 0)
     = Some \<lparr> init_url = ''https://api.example.com/users'', init_method = GET,
              init_headers = [], init_signal = CallerSignal \<rparr> \<and>
   fst (tryBlock (node False)
     (clientOf (\<lambda>i init. if init_signal init = CallerSignal
                           then Inl (ThrownError (AbortError ByCaller)) else Inr okResponse))
     \<lparr> validateStatus = None, schema = None, responseType = None \<rparr> GET
     \<lparr> url = ''https://api.example.com/users'', ctx_method = GET, ctx_headers = [],
        signal = Some (\<lambda>i. True) \<rparr> 0 0)
     = Inl (ThrownError (AbortError ByCaller)) \<and>
   calls (snd (fetcher (node False)
     (clientOf (\<lambda>i init. if init_signal init = CallerSignal
                           then Inl (ThrownError (AbortError ByCaller)) else Inr okResponse))
     ''https://api.example.com/users'' (byKind\<lparr>opt_signal := Some (\<lambda>i. True)\<rparr>))) \<noteq> [] \<and>
   calls (snd (fetcher (node False)
     (clientOf (\<lambda>i init. if init_signal init = CallerSignal
                           then Inl (ThrownError (AbortError ByCaller)) else Inr okResponse))
     ''https://api.example.com/users'' (byKind\<lparr>opt_signal := Some (\<lambda>i. True)\<rparr>))) ! 0
     = \<lparr> init_url = ''https://api.example.com/users'', init_method = GET,
         init_headers = [], init_signal = CallerSignal \<rparr>"
proof -
  let ?u = "''https://api.example.com/users''"
  let ?c = "clientOf (\<lambda>i init. if init_signal init = CallerSignal
                           then Inl (ThrownError (AbortError ByCaller)) else Inr okResponse)"
  let ?o = "byKind\<lparr>opt_signal := Some (\<lambda>i. True)\<rparr>"
  let ?ctx = "\<lparr> url = ?u, ctx_method = GET, ctx_headers = [], signal = Some (\<lambda>i. True) \<rparr>"
  let ?req = "\<lparr> req_url = ?u, req_method = GET, req_headers = [] \<rparr>"
  let ?popts = "\<lparr> validateStatus = None, schema = None, responseType = None \<rparr>"
  let ?F = "fetcher (node False) ?c ?u ?o"
  have rp: "requestPhase (node False) ?c ?u ?o = Inr ?ctx" by (simp add: eval_defs)
  have mr: "maxRetries (mergedRetryOptions (retryOptions ?c) (opt_retryOptions ?o)) = Defined 3"
    by (simp add: eval_defs)
  have sg: "signal ?ctx = Some (\<lambda>i. True)" by simp
  have nr: "newRequest (node False) ?ctx = Inr ?req" by (simp add: eval_defs)
  have cf: "customFetch ?c 0 (fetchInit ?req CallerSignal) = Inl (ThrownError (AbortError ByCaller))"
    by (simp add: clientOf_def fetchInit_def)
  have fi: "fetchInit ?req CallerSignal
      = \<lparr> init_url = ?u, init_method = GET, init_headers = [], init_signal = CallerSignal \<rparr>"
    by (simp add: fetchInit_def)
  note th = aborted_signal_still_reaches_transport[of ?ctx "\<lambda>i. True" 0 "node False" ?req ?c
      ?popts GET 0 ?u ?o 3]
  have 1: "snd (tryBlock (node False) ?c ?popts GET ?ctx 0 0) = Some (fetchInit ?req CallerSignal)"
    using th sg nr by blast
  have 2: "fst (tryBlock (node False) ?c ?popts GET ?ctx 0 0) = Inl (ThrownError (AbortError ByCaller))"
    using th sg nr cf by blast
  have 3: "calls (snd ?F) \<noteq> []" using th rp mr sg nr by blast
  have "\<forall>i < length (calls (snd ?F)). calls (snd ?F) ! i = fetchInit ?req CallerSignal"
    using th rp mr sg nr by blast
  moreover have "0 < length (calls (snd ?F))" using 3 by simp
  ultimately have 4: "calls (snd ?F) ! 0 = fetchInit ?req CallerSignal" by blast
  show ?thesis using rp 1 2 3 4 unfolding fi by blast
qed

text \<open>
  C5 as stated fails: with that signal and transport, under the policy by kind, the
  invocation makes one transport call and rejects with a \<open>TimeoutError\<close>, in
  either build.
\<close>

theorem aborted_signal_counterexample:
  "\<forall>df. fetcher (node df)
     (clientOf (\<lambda>i init. if init_signal init = CallerSignal
                           then Inl (ThrownError (AbortError ByCaller)) else Inr okResponse))
     ''https://api.example.com/users'' (byKind\<lparr>opt_signal := Some (\<lambda>i. True)\<rparr>) =
     (Inl (TimeoutError ''Request timeout after 30000ms''
             (storedCause df (Some (AbortError ByCaller)))),
      \<lparr> calls = [\<lparr> init_url = ''https://api.example.com/users'', init_method = GET,
                    init_headers = [], init_signal = CallerSignal \<rparr>],
        sleeps = [], timers = [] \<rparr>)"
  by (simp add: eval_defs attemptLoop_step[where n=3])

section \<open>Missing path parameters\<close>

lemma replaceAll_find:
  "replaceAll path params segs =
     (case find (\<lambda>n. getParam params n = UndefinedParam) (tokenNames segs) of
        Some n \<Rightarrow> Inl (PathParameterError (''Missing required path parameter: '' @ n) path [n]
                        (objectKeys params))
      | None \<Rightarrow> Inr (concat (map (substitute params) segs)))"
  by (induction path params segs rule: replaceAll.induct) (auto split: option.splits sum.splits)

lemma takeWhile_run:
  "\<forall>c\<in>set n. P c \<Longrightarrow> \<not> P x \<Longrightarrow> takeWhile P (n @ x # rest) = n"
  by (induction n) auto

lemma dropWhile_run:
  "\<forall>c\<in>set n. P c \<Longrightarrow> \<not> P x \<Longrightarrow> dropWhile P (n @ x # rest) = x # rest"
  by (induction n) auto

text \<open>
  C8 (as amended). \<open>generatePath\<close> fails exactly when some token of the template has
  no defined value in \<open>pathParams\<close>; the \<open>PathParameterError\<close> then names the
  leftmost such token alone and carries the template and the keys of \<open>pathParams\<close>.
  The value of a token is read as \<^verbatim>\<open>params[name]\<close>: it is undefined when the own
  property is bound to \<^verbatim>\<open>undefined\<close>, or when there is no own property and the name
  is not one that \<^verbatim>\<open>Object.prototype\<close> defines. A \<open>?\<close> after a token is not part
  of the token: \<open>:name?\<close> is the token \<open>name\<close>, which needs a value like any
  other, followed by a literal \<open>?\<close>.
\<close>

theorem generatePath_first_missing_token:
  "generatePath path params =
     (case find (\<lambda>n. getParam params n = UndefinedParam) (tokenNames (matchTokens path)) of
        Some n \<Rightarrow> Inl (PathParameterError (''Missing required path parameter: '' @ n) path [n]
                        (objectKeys params))
      | None \<Rightarrow> Inr (concat (map (substitute params) (matchTokens path)))) \<and>
   ((getParam params k = UndefinedParam) =
      (case map_of (rev (ownProperties params)) k of
         Some v \<Rightarrow> v = UndefinedParam
       | None \<Rightarrow> k \<notin> set prototypeKeys)) \<and>
   (n \<noteq> [] \<and> list_all wordChar n \<longrightarrow>
      matchTokens (CHR '':'' # n @ CHR ''?'' # rest) = Token n # Lit (CHR ''?'') # matchTokens rest)"
proof -
  have opt: "matchTokens (CHR '':'' # n @ CHR ''?'' # rest) = Token n # Lit (CHR ''?'') # matchTokens rest"
    if n: "n \<noteq> []" "list_all wordChar n"
  proof -
    have w: "\<forall>c\<in>set n. wordChar c" using n(2) by (simp add: list_all_iff)
    have q: "\<not> wordChar (CHR ''?'')" by (simp add: wordChar_def)
    show ?thesis
      using n(1) by (simp add: takeWhile_run[OF w q] dropWhile_run[OF w q])
  qed
  have own: "(getParam params k = UndefinedParam) =
      (case map_of (rev (ownProperties params)) k of
         Some v \<Rightarrow> v = UndefinedParam
       | None \<Rightarrow> k \<notin> set prototypeKeys)"
    by (simp add: getParam_def split: option.splits)
  have gp: "generatePath path params =
     (case find (\<lambda>n. getParam params n = UndefinedParam) (tokenNames (matchTokens path)) of
        Some n \<Rightarrow> Inl (PathParameterError (''Missing required path parameter: '' @ n) path [n]
                        (objectKeys params))
      | None \<Rightarrow> Inr (concat (map (substitute params) (matchTokens path))))"
    by (simp add: generatePath_def replaceAll_find)
  show ?thesis using opt own gp by blast
qed

text \<open>
  C8, an instance: the token of \<open>:id?\<close>, and a template whose second token is
  the one without value.
\<close>

theorem generatePath_first_missing_token_witness:
  "(''id'' \<noteq> [] \<and> list_all wordChar ''id'') \<and>
   matchTokens '':id?/x'' = [Token ''id'', Lit (CHR ''?''), Lit (CHR ''/''), Lit (CHR ''x'')] \<and>
   generatePath ''/:a/:b'' [(''a'', StringParam ''1'')] =
     Inl (PathParameterError ''Missing required path parameter: b'' ''/:a/:b'' [''b''] [''a'']) \<and>
   getParam [(''a'', StringParam ''1'')] ''b'' = UndefinedParam \<and>
   getParam [(''a'', StringParam ''1'')] ''toString'' \<noteq> UndefinedParam"
proof -
  have h: "''id'' \<noteq> [] \<and> list_all wordChar ''id''" by (simp add: wordChar_def)
  have r: "matchTokens ''/x'' = [Lit (CHR ''/''), Lit (CHR ''x'')]" by (simp add: wordChar_def)
  have t: "tokenNames (matchTokens ''/:a/:b'') = [''a'', ''b'']" by (simp add: wordChar_def)
  have o: "ownProperties [(''a'', StringParam ''1'')] = [(''a'', StringParam ''1'')]"
    by (simp add: ownProperties_def)
  have k: "objectKeys [(''a'', StringParam ''1'')] = [''a'']"
    by (simp add: objectKeys_def o isArrayIndex_def isDigit_def)
  have ga: "getParam [(''a'', StringParam ''1'')] ''a'' \<noteq> UndefinedParam"
    using generatePath_first_missing_token[of "''/:a/:b''" "[(''a'', StringParam ''1'')]" "''a''"
        "''id''" "''/x''"]
    by (simp add: o)
  have gb: "getParam [(''a'', StringParam ''1'')] ''b'' = UndefinedParam"
    using generatePath_first_missing_token[of "''/:a/:b''" "[(''a'', StringParam ''1'')]" "''b''"
        "''id''" "''/x''"]
    by (simp add: o prototypeKeys_def)
  have gt: "getParam [(''a'', StringParam ''1'')] ''toString'' \<noteq> UndefinedParam"
    using generatePath_first_missing_token[of "''/:a/:b''" "[(''a'', StringParam ''1'')]"
        "''toString''" "''id''" "''/x''"]
    by (simp add: o prototypeKeys_def)
  from generatePath_first_missing_token[of "''/:a/:b''" "[(''a'', StringParam ''1'')]" "''b''"
      "''id''" "''/x''"] h r t k ga gb gt
  show ?thesis by simp
qed

text \<open>
  C8 as stated fails twice: an optional token without key is an error, and of two
  missing tokens only the first is named.
\<close>

theorem generatePath_counterexample:
  "generatePath ''/users/:id?'' [] =
     Inl (PathParameterError ''Missing required path parameter: id'' ''/users/:id?'' [''id''] []) \<and>
   generatePath ''/a/:x/:y'' [] =
     Inl (PathParameterError ''Missing required path parameter: x'' ''/a/:x/:y'' [''x''] [])"
  by (simp add: generatePath_def wordChar_def getParam_def ownProperties_def objectKeys_def
      prototypeKeys_def)

section \<open>The instrumented stream\<close>

lemma readLoop_indexed:
  "readLoop cs tot acc =
     concat (map (\<lambda>i. [OnChunk \<lparr> chunk = cs ! i, totalBytes = tot,
                                 transferredBytes = acc + sum_list (map length (take (Suc i) cs)) \<rparr>,
                        Enqueue (cs ! i)]) [0..<length cs])"
proof (induction cs arbitrary: acc)
  case Nil
  show ?case by simp
next
  case (Cons v rest)
  have "[0..<length (v # rest)] = 0 # map Suc [0..<length rest]"
    by (simp add: upt_conv_Cons map_Suc_upt del: upt_Suc)
  then show ?case
    by (simp add: Cons.IH comp_def add.assoc del: upt_Suc)
qed

lemma perform_readLoop:
  "foldl (perform taken) ctl (readLoop cs tot acc) = ctl\<lparr>queue := queue ctl @ cs\<rparr>"
  by (induction cs arbitrary: ctl acc) auto

lemma settle_normal:
  "failure src = None \<Longrightarrow>
   settle taken (createStreamingStream src tot) =
     \<lparr> queue = drop taken (chunks src), closeRequested = True,
       state = (if drop taken (chunks src) = [] then Closed else Readable),
       received = take taken (chunks src) \<rparr>"
  by (simp add: settle_def createStreamingStream_def perform_readLoop newController_def
      consume_def)

text \<open>
  C9 (as amended). The run of the instrumented stream calls the callback once per chunk,
  immediately before that chunk is enqueued, with \<open>transferredBytes\<close> the number of
  bytes read so far (the chunk included) and the same \<open>totalBytes\<close> for every chunk;
  then it releases the lock and closes the controller. For an input that ends normally
  the consumer, however many chunks it has read by then, reads the same chunks in the
  same order and then the end of the stream. \<open>toStreamableResponse\<close> gives the
  response itself when there is no callback or no body; otherwise it instruments the
  body with \<open>totalBytes\<close> read from the \<open>content-length\<close> header: unknown when
  the header is missing or empty, its \<^verbatim>\<open>parseInt\<close> otherwise.
\<close>

theorem instrumented_stream:
  "actions (createStreamingStream src tot) =
     concat (map (\<lambda>i. [OnChunk \<lparr> chunk = chunks src ! i, totalBytes = tot,
                                 transferredBytes = sum_list (map length (take (Suc i) (chunks src))) \<rparr>,
                        Enqueue (chunks src ! i)]) [0..<length (chunks src)])
       @ [ReleaseLock, Close] \<and>
   (failure src = None \<longrightarrow>
      (\<forall>taken. delivered (settle taken (createStreamingStream src tot))
                 = \<lparr> chunks = chunks src, failure = None \<rparr>)) \<and>
   toStreamableResponse parseInt resp False = Untracked resp \<and>
   (body resp = None \<longrightarrow> toStreamableResponse parseInt resp True = Untracked resp) \<and>
   (body resp = Some src \<longrightarrow>
      toStreamableResponse parseInt resp True =
        Tracked (createStreamingStream src (totalBytesOf parseInt (headers resp)))
          (status resp) (statusText resp) (headers resp)) \<and>
   totalBytesOf parseInt (headers resp) =
     (case map_of (headers resp) ''content-length'' of
        None \<Rightarrow> None
      | Some h \<Rightarrow> if h = [] then None else Some (parseInt h))"
proof -
  have 1: "actions (createStreamingStream src tot) =
     concat (map (\<lambda>i. [OnChunk \<lparr> chunk = chunks src ! i, totalBytes = tot,
                                 transferredBytes = sum_list (map length (take (Suc i) (chunks src))) \<rparr>,
                        Enqueue (chunks src ! i)]) [0..<length (chunks src)])
       @ [ReleaseLock, Close]"
    by (simp add: createStreamingStream_def readLoop_indexed)
  have 2: "delivered (settle taken (createStreamingStream src tot))
             = \<lparr> chunks = chunks src, failure = None \<rparr>"
    if "failure src = None" for taken
    using that by (simp add: settle_normal delivered_def)
  have 3: "toStreamableResponse parseInt resp False = Untracked resp"
    by (simp add: toStreamableResponse_def split: option.splits)
  have 4: "toStreamableResponse parseInt resp True = Untracked resp" if "body resp = None"
    using that by (simp add: toStreamableResponse_def)
  have 5: "toStreamableResponse parseInt resp True =
        Tracked (createStreamingStream src (totalBytesOf parseInt (headers resp)))
          (status resp) (statusText resp) (headers resp)"
    if "body resp = Some src"
    using that by (simp add: toStreamableResponse_def)
  have 6: "totalBytesOf parseInt (headers resp) =
     (case map_of (headers resp) ''content-length'' of
        None \<Rightarrow> None
      | Some h \<Rightarrow> if h = [] then None else Some (parseInt h))"
    by (simp add: totalBytesOf_def)
  show ?thesis using 1 2 3 4 5 6 by blast
qed

text \<open>
  C9, an instance: a body of two chunks, three bytes, with its length declared.
\<close>

theorem instrumented_stream_witness:
  "failure \<lparr> chunks = [[104, 105], [33]], failure = None \<rparr> = None \<and>
   body (okResponse\<lparr>headers := [(''content-length'', ''3'')],
                    body := Some \<lparr> chunks = [[104, 105], [33]], failure = None \<rparr>\<rparr>)
     = Some \<lparr> chunks = [[104, 105], [33]], failure = None \<rparr> \<and>
   body okResponse = None \<and>
   toStreamableResponse parseDigits okResponse True = Untracked okResponse \<and>
   totalBytesOf parseDigits (headers okResponse) = None \<and>
   totalBytesOf parseDigits [(''content-length'', ''3'')] = Some (Finite 3) \<and>
   delivered (settle 0 (createStreamingStream \<lparr> chunks = [[104, 105], [33]], failure = None \<rparr>
       (Some (Finite 3))))
     = \<lparr> chunks = [[104, 105], [33]], failure = None \<rparr> \<and>
   delivered (settle 1 (createStreamingStream \<lparr> chunks = [[104, 105], [33]], failure = None \<rparr>
       (Some (Finite 3))))
     = \<lparr> chunks = [[104, 105], [33]], failure = None \<rparr> \<and>
   toStreamableResponse parseDigits
     (okResponse\<lparr>headers := [(''content-length'', ''3'')],
                 body := Some \<lparr> chunks = [[104, 105], [33]], failure = None \<rparr>\<rparr>) True
     = Tracked
         \<lparr> actions = [OnChunk \<lparr> chunk = [104, 105], totalBytes = Some (Finite 3), transferredBytes = 2 \<rparr>,
                      Enqueue [104, 105],
                      OnChunk \<lparr> chunk = [33], totalBytes = Some (Finite 3), transferredBytes = 3 \<rparr>,
                      Enqueue [33], ReleaseLock, Close],
           rejected = None \<rparr>
         200 ''OK'' [(''content-length'', ''3'')]"
proof -
  let ?src = "\<lparr> chunks = [[104, 105], [33]], failure = None \<rparr> :: source"
  let ?resp = "okResponse\<lparr>headers := [(''content-length'', ''3'')], body := Some ?src\<rparr>"
  let ?tot = "Some (Finite 3)"
  have h1: "failure ?src = None" by simp
  have h2: "body ?resp = Some ?src" by simp
  have h3: "body okResponse = None" by (simp add: okResponse_def)
  have p: "parseDigits ''3'' = Finite 3"
    by (simp add: parseDigits_def isDigit_def digitsValue_def digitVal_def)
  note th = instrumented_stream[of ?src ?tot parseDigits ?resp]
  note th0 = instrumented_stream[of ?src ?tot parseDigits okResponse]
  have a: "actions (createStreamingStream ?src ?tot) =
      [OnChunk \<lparr> chunk = [104, 105], totalBytes = ?tot, transferredBytes = 2 \<rparr>,
       Enqueue [104, 105],
       OnChunk \<lparr> chunk = [33], totalBytes = ?tot, transferredBytes = 3 \<rparr>,
       Enqueue [33], ReleaseLock, Close]"
    using th by (simp add: upt_conv_Cons del: upt_Suc)
  have r: "rejected (createStreamingStream ?src ?tot) = None"
    by (simp add: createStreamingStream_def)
  have e: "createStreamingStream ?src ?tot =
     \<lparr> actions = [OnChunk \<lparr> chunk = [104, 105], totalBytes = ?tot, transferredBytes = 2 \<rparr>,
                      Enqueue [104, 105],
                      OnChunk \<lparr> chunk = [33], totalBytes = ?tot, transferredBytes = 3 \<rparr>,
                      Enqueue [33], ReleaseLock, Close],
           rejected = None \<rparr>"
    using a r by (cases "createStreamingStream ?src ?tot") simp
  have u: "toStreamableResponse parseDigits okResponse True = Untracked okResponse"
    using th0 h3 by blast
  have t1: "totalBytesOf parseDigits (headers okResponse) = None"
    using th0 by (simp add: okResponse_def)
  have t2: "totalBytesOf parseDigits (headers ?resp) = ?tot"
    using th p by simp
  have d: "\<forall>taken. delivered (settle taken (createStreamingStream ?src ?tot)) = ?src"
    using th by simp
  have s: "toStreamableResponse parseDigits ?resp True =
      Tracked (createStreamingStream ?src (totalBytesOf parseDigits (headers ?resp)))
        (status ?resp) (statusText ?resp) (headers ?resp)"
    using th h2 by blast
  have s': "toStreamableResponse parseDigits ?resp True =
      Tracked (createStreamingStream ?src ?tot) 200 ''OK'' [(''content-length'', ''3'')]"
    unfolding s t2 by (simp add: okResponse_def)
  have t2': "totalBytesOf parseDigits [(''content-length'', ''3'')] = ?tot"
    using t2 by simp
  show ?thesis
    using h1 h2 h3 u t1 t2' d s' unfolding e by blast
qed

text \<open>
  C9 as stated fails twice. When the input fails before its first chunk, the
  \<open>finally\<close> block closes the empty stream, the rejection of \<open>start\<close> comes too
  late to error it, and the consumer reads a normal end where the input gave an error.
  And a \<open>content-length\<close> header that is there but empty gives an unknown total.
\<close>

theorem instrumented_stream_counterexample:
  "(\<forall>taken. delivered (settle taken (createStreamingStream
      \<lparr> chunks = [], failure = Some (ThrownError (NativeError ''TypeError'' ''terminated'')) \<rparr> None))
     = \<lparr> chunks = [], failure = None \<rparr>) \<and>
   \<lparr> chunks = [], failure = None \<rparr>
     \<noteq> \<lparr> chunks = [], failure = Some (ThrownError (NativeError ''TypeError'' ''terminated'')) \<rparr> \<and>
   (\<forall>parseInt. totalBytesOf parseInt [(''content-length'', '''')] = None)"
  by (simp add: delivered_def settle_def createStreamingStream_def newController_def
      controllerError_def consume_def totalBytesOf_def)

section \<open>Errors of the schema validator\<close>

lemma processResponse_no_protocolError:
  "processResponse df resp popts meth u sv = Inl e \<Longrightarrow> \<not> protocolError e"
  by (auto simp: processResponse_def Let_def newHttpError_def split: sum.splits if_splits option.splits)

lemma tryBlock_no_protocolError:
  assumes "\<forall>i init e. customFetch config i init = Inl (ThrownError e) \<longrightarrow> \<not> protocolError e"
    and "fst (tryBlock pf config popts meth ctx a made) = Inl (ThrownError e)"
  shows "\<not> protocolError e"
  using assms
  by (auto simp: tryBlock_def Let_def typeError_def split: sum.splits option.splits
      dest: processResponse_no_protocolError)

lemma catchError_protocolError:
  "protocolError (catchError df timeout t) \<Longrightarrow> \<exists>e. t = ThrownError e \<and> protocolError e"
  by (cases t) (auto simp: catchError_def Let_def split: if_splits)

lemma requestPhase_no_protocolError:
  "requestPhase pf config path options = Inl e \<Longrightarrow> \<not> protocolError e"
  by (auto simp: requestPhase_def generatePath_def replaceAll_find Let_def typeError_def
      split: sum.splits option.splits if_splits)

lemma fetcher_no_protocolError:
  assumes tr: "\<forall>i init e. customFetch config i init = Inl (ThrownError e) \<longrightarrow> \<not> protocolError e"
    and res: "fst (fetcher pf config path options) = Inl e"
  shows "\<not> protocolError e"
proof (cases "requestPhase pf config path options")
  case (Inl e')
  then show ?thesis using res requestPhase_no_protocolError[OF Inl] by (simp add: fetcher_def)
next
  case (Inr ctx)
  let ?ro = "mergedRetryOptions (retryOptions config) (opt_retryOptions options)"
  let ?F = "fetcher pf config path options"
  show ?thesis
  proof (cases "\<exists>n. maxRetries ?ro = Defined n")
    case True
    then obtain n where mr: "maxRetries ?ro = Defined n" by blast
    from fetcher_shape[OF Inr mr] obtain k where
      k: "case attemptResult pf config (processOptions options) (methodOf options) ctx k of
           Inr r \<Rightarrow> fst ?F = Inr r \<and> timers (snd ?F) = [k]
         | Inl t \<Rightarrow> fst ?F = Inl (catchError (definesClassFields pf) (timeoutOf config options) t) \<and>
                   timers (snd ?F) = [] \<and>
                   (k = n \<or> \<not> shouldRetry (catchError (definesClassFields pf) (timeoutOf config options) t) k (Some ?ro))"
      by blast
    show ?thesis
    proof (cases "attemptResult pf config (processOptions options) (methodOf options) ctx k")
      case (Inl t)
      with k res have e: "e = catchError (definesClassFields pf) (timeoutOf config options) t" by simp
      show ?thesis
      proof
        assume "protocolError e"
        then obtain e' where "t = ThrownError e'" "protocolError e'"
          using catchError_protocolError e by blast
        then show False using tryBlock_no_protocolError[OF tr] Inl
          unfolding attemptResult_def by blast
      qed
    next
      case (Inr r)
      with k res show ?thesis by simp
    qed
  next
    case False
    then have "?F = (Inl (afterLoop None), noTrace)"
      unfolding fetcher_loop[OF Inr] by (simp add: attemptLoop_skipped)
    then show ?thesis using res by (auto simp: afterLoop_def)
  qed
qed

lemma validation_throws:
  assumes dc: "decodeBody resp (responseType popts) = Inr d"
    and st: "case validateStatus popts of
               Some f \<Rightarrow> f (status resp)
             | None \<Rightarrow> 200 \<le> status resp \<and> status resp < 300"
    and sc: "schema popts = Some sch"
    and vt: "validate sv sch d = Inl t"
  shows "processResponse df resp popts meth u sv =
        Inl (SchemaValidationError (''Schema validation failed: '' @ thrownText t) sch d
               (storedCause df (causeOf t)))"
  using assms by (simp add: processResponse_def Let_def split: option.splits)

lemma validation_throws_in_attempt:
  assumes nr: "newRequest pf ctx = Inr req"
    and cf: "customFetch config made (fetchInit req (finalSignalOf ctx a)) = Inr resp"
    and dc: "decodeBody resp (responseType popts) = Inr d"
    and st: "case validateStatus popts of
               Some f \<Rightarrow> f (status resp)
             | None \<Rightarrow> 200 \<le> status resp \<and> status resp < 300"
    and sc: "schema popts = Some sch"
    and vt: "validate (schemaValidator config) sch d = Inl t"
  shows "fst (tryBlock pf config popts meth ctx a made) =
        Inl (ThrownError (SchemaValidationError (''Schema validation failed: '' @ thrownText t)
               sch d (storedCause (definesClassFields pf) (causeOf t))))"
  by (simp add: tryBlock_def Let_def nr cf validation_throws[OF dc st sc vt])

text \<open>
  C10 (the code departs from the claim). Whatever the schema validator throws while the
  response is validated, the response processing throws a \<open>SchemaValidationError\<close>
  with the schema and the decoded data, its message quoting the thrown error; so it is
  with the \<open>InvalidSchemaError\<close> and the \<open>AsyncSchemaValidationError\<close> of the
  default validator. When the transport answers every call with such a response, the
  invocation rejects with that \<open>SchemaValidationError\<close>, whatever the retry
  decision; and neither of the two errors is ever the rejection of an invocation, unless
  the transport itself rejects with one. The cause departs: the thrown error is the
  cause in a build that does not define class fields, and in a build that defines them
  the error has no cause.
\<close>

theorem validator_errors_are_wrapped:
  "(decodeBody resp (responseType popts) = Inr d \<and>
    (case validateStatus popts of
       Some f \<Rightarrow> f (status resp)
     | None \<Rightarrow> 200 \<le> status resp \<and> status resp < 300) \<and>
    schema popts = Some sch \<and> validate sv sch d = Inl t \<longrightarrow>
      processResponse definesFields resp popts meth u sv =
        Inl (SchemaValidationError (''Schema validation failed: '' @ thrownText t) sch d
               (if definesFields then None else causeOf t))) \<and>
   (std sch = None \<longrightarrow>
      validate (createSchemaValidator std) sch d =
        Inl (ThrownError (InvalidSchemaError
               ''Schema must implement the Standard Schema interface'' sch))) \<and>
   (std sch = Some v \<and> v d = Inr Promise \<longrightarrow>
      validate (createSchemaValidator std) sch d =
        Inl (ThrownError (AsyncSchemaValidationError
               ''Async Standard Schema validation is not supported in this context'' sch))) \<and>
   (requestPhase pf config path options = Inr ctx \<and>
    maxRetries (mergedRetryOptions (retryOptions config) (opt_retryOptions options)) = Defined n \<and>
    newRequest pf ctx = Inr req \<and>
    (\<forall>i. customFetch config i (fetchInit req (finalSignalOf ctx i)) = Inr resp) \<and>
    decodeBody resp (opt_responseType options) = Inr d \<and>
    (case opt_validateStatus options of
       Some f \<Rightarrow> f (status resp)
     | None \<Rightarrow> 200 \<le> status resp \<and> status resp < 300) \<and>
    opt_schema options = Some sch \<and> validate (schemaValidator config) sch d = Inl t \<longrightarrow>
      fst (fetcher pf config path options) =
        Inl (SchemaValidationError (''Schema validation failed: '' @ thrownText t) sch d
               (if definesClassFields pf then None else causeOf t))) \<and>
   ((\<forall>i init e. customFetch config i init = Inl (ThrownError e) \<longrightarrow> \<not> protocolError e) \<longrightarrow>
      (\<forall>e. fst (fetcher pf config path options) = Inl e \<longrightarrow> \<not> protocolError e))"
proof -
  let ?F = "fetcher pf config path options"
  let ?ro = "mergedRetryOptions (retryOptions config) (opt_retryOptions options)"
  have 1: "processResponse definesFields resp popts meth u sv =
        Inl (SchemaValidationError (''Schema validation failed: '' @ thrownText t) sch d
               (if definesFields then None else causeOf t))"
    if "decodeBody resp (responseType popts) = Inr d"
      "case validateStatus popts of
         Some f \<Rightarrow> f (status resp)
       | None \<Rightarrow> 200 \<le> status resp \<and> status resp < 300"
      "schema popts = Some sch" "validate sv sch d = Inl t"
    using validation_throws[OF that] by (simp add: storedCause_def)
  have 2: "validate (createSchemaValidator std) sch d =
        Inl (ThrownError (InvalidSchemaError
               ''Schema must implement the Standard Schema interface'' sch))"
    if "std sch = None"
    using that by (simp add: createSchemaValidator_def)
  have 3: "validate (createSchemaValidator std) sch d =
        Inl (ThrownError (AsyncSchemaValidationError
               ''Async Standard Schema validation is not supported in this context'' sch))"
    if "std sch = Some v" "v d = Inr Promise"
    using that by (simp add: createSchemaValidator_def)
  have 4: "fst ?F =
        Inl (SchemaValidationError (''Schema validation failed: '' @ thrownText t) sch d
               (if definesClassFields pf then None else causeOf t))"
    if rp: "requestPhase pf config path options = Inr ctx"
      and mr: "maxRetries ?ro = Defined n"
      and nr: "newRequest pf ctx = Inr req"
      and cf: "\<forall>i. customFetch config i (fetchInit req (finalSignalOf ctx i)) = Inr resp"
      and dc: "decodeBody resp (opt_responseType options) = Inr d"
      and st: "case opt_validateStatus options of
                 Some f \<Rightarrow> f (status resp)
               | None \<Rightarrow> 200 \<le> status resp \<and> status resp < 300"
      and sc: "opt_schema options = Some sch"
      and vt: "validate (schemaValidator config) sch d = Inl t"
  proof -
    let ?E = "SchemaValidationError (''Schema validation failed: '' @ thrownText t) sch d
               (storedCause (definesClassFields pf) (causeOf t))"
    have dc': "decodeBody resp (responseType (processOptions options)) = Inr d"
      using dc by (simp add: processOptions_def)
    have st': "case validateStatus (processOptions options) of
                 Some f \<Rightarrow> f (status resp)
               | None \<Rightarrow> 200 \<le> status resp \<and> status resp < 300"
      using st by (simp add: processOptions_def)
    have sc': "schema (processOptions options) = Some sch"
      using sc by (simp add: processOptions_def)
    have ar: "attemptResult pf config (processOptions options) (methodOf options) ctx k
        = Inl (ThrownError ?E)" for k
      unfolding attemptResult_def
      using validation_throws_in_attempt[OF nr _ dc' st' sc' vt] cf
      by (simp add: callsUpTo_built[OF nr])
    from fetcher_shape[OF rp mr] obtain k where
      k: "case attemptResult pf config (processOptions options) (methodOf options) ctx k of
           Inr r \<Rightarrow> fst ?F = Inr r \<and> timers (snd ?F) = [k]
         | Inl t \<Rightarrow> fst ?F = Inl (catchError (definesClassFields pf) (timeoutOf config options) t) \<and>
                   timers (snd ?F) = [] \<and>
                   (k = n \<or> \<not> shouldRetry (catchError (definesClassFields pf) (timeoutOf config options) t) k (Some ?ro))"
      by blast
    have "fst ?F = Inl (catchError (definesClassFields pf) (timeoutOf config options) (ThrownError ?E))"
      using k by (simp add: ar)
    then show ?thesis by (simp add: catchError_def storedCause_def)
  qed
  have 5: "\<not> protocolError e"
    if "\<forall>i init e. customFetch config i init = Inl (ThrownError e) \<longrightarrow> \<not> protocolError e"
       "fst ?F = Inl e" for e
    using fetcher_no_protocolError[OF that] .
  show ?thesis
    apply (intro conjI)
    subgoal using 1 by blast
    subgoal using 2 by blast
    subgoal using 3 by blast
    subgoal using 4 by blast
    subgoal using 5 by blast
    done
qed

lemma invalid_schema_run:
  "fetcher (node df) (clientOf (\<lambda>i init. Inr okResponse)) ''https://api.example.com/users''
     (byKind\<lparr>opt_schema := Some ''userSchema''\<rparr>) =
   (Inl (SchemaValidationError
           ''Schema validation failed: Schema must implement the Standard Schema interface''
           ''userSchema'' (JsonData ''{}'')
           (if df then None
            else Some (InvalidSchemaError ''Schema must implement the Standard Schema interface''
                    ''userSchema''))),
    \<lparr> calls = [\<lparr> init_url = ''https://api.example.com/users'', init_method = GET,
                  init_headers = [], init_signal = ControllerSignal \<rparr>],
      sleeps = [], timers = [] \<rparr>)"
  by (simp add: eval_defs createSchemaValidator_def attemptLoop_step[where n=3])

text \<open>
  C10, an instance: a schema that is not a standard schema, in either build, and a
  schema whose validation is asynchronous.
\<close>

theorem validator_errors_are_wrapped_witness:
  "decodeBody okResponse (opt_responseType (byKind\<lparr>opt_schema := Some ''userSchema''\<rparr>))
     = Inr (JsonData ''{}'') \<and>
   validate (createSchemaValidator (\<lambda>s. None)) ''userSchema'' (JsonData ''{}'') =
     Inl (ThrownError (InvalidSchemaError ''Schema must implement the Standard Schema interface''
            ''userSchema'')) \<and>
   requestPhase (node True) (clientOf (\<lambda>i init. Inr okResponse)) ''https://api.example.com/users''
       (byKind\<lparr>opt_schema := Some ''userSchema''\<rparr>)
     = Inr \<lparr> url = ''https://api.example.com/users'', ctx_method = GET, ctx_headers = [],
            signal = None \<rparr> \<and>
   processResponse True okResponse
       \<lparr> validateStatus = None, schema = Some ''userSchema'', responseType = None \<rparr>
       GET ''https://api.example.com/users'' (createSchemaValidator (\<lambda>s. None)) =
     Inl (SchemaValidationError
            ''Schema validation failed: Schema must implement the Standard Schema interface''
            ''userSchema'' (JsonData ''{}'') None) \<and>
   processResponse False okResponse
       \<lparr> validateStatus = None, schema = Some ''userSchema'', responseType = None \<rparr>
       GET ''https://api.example.com/users'' (createSchemaValidator (\<lambda>s. None)) =
     Inl (SchemaValidationError
            ''Schema validation failed: Schema must implement the Standard Schema interface''
            ''userSchema'' (JsonData ''{}'')
            (Some (InvalidSchemaError ''Schema must implement the Standard Schema interface''
                     ''userSchema''))) \<and>
   validate (createSchemaValidator (\<lambda>s. if s = ''userSchema'' then Some (\<lambda>d. Inr Promise) else None))
       ''userSchema'' (JsonData ''{}'') =
     Inl (ThrownError (AsyncSchemaValidationError
            ''Async Standard Schema validation is not supported in this context'' ''userSchema'')) \<and>
   fst (fetcher (node True) (clientOf (\<lambda>i init. Inr okResponse)) ''https://api.example.com/users''
          (byKind\<lparr>opt_schema := Some ''userSchema''\<rparr>)) =
     Inl (SchemaValidationError
            ''Schema validation failed: Schema must implement the Standard Schema interface''
            ''userSchema'' (JsonData ''{}'') None) \<and>
   fst (fetcher (node False) (clientOf (\<lambda>i init. Inr okResponse)) ''https://api.example.com/users''
          (byKind\<lparr>opt_schema := Some ''userSchema''\<rparr>)) =
     Inl (SchemaValidationError
            ''Schema validation failed: Schema must implement the Standard Schema interface''
            ''userSchema'' (JsonData ''{}'')
            (Some (InvalidSchemaError ''Schema must implement the Standard Schema interface''
                     ''userSchema''))) \<and>
   calls (snd (fetcher (node True) (clientOf (\<lambda>i init. Inr okResponse))
          ''https://api.example.com/users'' (byKind\<lparr>opt_schema := Some ''userSchema''\<rparr>))) =
     [\<lparr> init_url = ''https://api.example.com/users'', init_method = GET,
        init_headers = [], init_signal = ControllerSignal \<rparr>] \<and>
   \<not> protocolError (SchemaValidationError
            ''Schema validation failed: Schema must implement the Standard Schema interface''
            ''userSchema'' (JsonData ''{}'') None)"
proof -
  let ?u = "''https://api.example.com/users''"
  let ?o = "byKind\<lparr>opt_schema := Some ''userSchema''\<rparr>"
  let ?po = "\<lparr> validateStatus = None, schema = Some ''userSchema'', responseType = None \<rparr>"
  let ?std = "\<lambda>s::schema. if s = ''userSchema''
                then Some (\<lambda>d::data. Inr Promise :: thrown + validation) else None"
  let ?c = "clientOf (\<lambda>i init. Inr okResponse)"
  let ?ctx = "\<lparr> url = ?u, ctx_method = GET, ctx_headers = [], signal = None \<rparr>"
  let ?req = "\<lparr> req_url = ?u, req_method = GET, req_headers = [] \<rparr>"
  let ?ise = "InvalidSchemaError ''Schema must implement the Standard Schema interface''
                ''userSchema''"
  have h1: "decodeBody okResponse (opt_responseType ?o) = Inr (JsonData ''{}'')"
    by (simp add: eval_defs)
  have h1': "decodeBody okResponse (responseType ?po) = Inr (JsonData ''{}'')"
    by (simp add: eval_defs)
  have h2: "case opt_validateStatus ?o of Some f \<Rightarrow> f (status okResponse)
        | None \<Rightarrow> 200 \<le> status okResponse \<and> status okResponse < 300"
    by (simp add: eval_defs)
  have h2': "case validateStatus ?po of Some f \<Rightarrow> f (status okResponse)
        | None \<Rightarrow> 200 \<le> status okResponse \<and> status okResponse < 300"
    by (simp add: eval_defs)
  have h3: "opt_schema ?o = Some ''userSchema''" by (simp add: eval_defs)
  have h3': "schema ?po = Some ''userSchema''" by simp
  have h4: "validate (createSchemaValidator (\<lambda>s. None)) ''userSchema'' (JsonData ''{}'') =
      Inl (ThrownError ?ise)"
    by (simp add: createSchemaValidator_def)
  have h4': "validate (schemaValidator ?c) ''userSchema'' (JsonData ''{}'') = Inl (ThrownError ?ise)"
    by (simp add: createSchemaValidator_def clientOf_def)
  have h5: "?std ''userSchema'' = Some (\<lambda>d. Inr Promise) \<and>
      (\<lambda>d::data. Inr Promise :: thrown + validation) (JsonData ''{}'') = Inr Promise"
    by simp
  have rp: "requestPhase (node df) ?c ?u ?o = Inr ?ctx" for df by (simp add: eval_defs)
  have mr: "maxRetries (mergedRetryOptions (retryOptions ?c) (opt_retryOptions ?o)) = Defined 3"
    by (simp add: eval_defs)
  have nr: "newRequest (node df) ?ctx = Inr ?req" for df by (simp add: eval_defs)
  have cf: "\<forall>i. customFetch ?c i (fetchInit ?req (finalSignalOf ?ctx i)) = Inr okResponse"
    by (simp add: clientOf_def)
  note th = validator_errors_are_wrapped[where resp=okResponse and popts="?po"
      and d="JsonData ''{}''" and sch="''userSchema''" and sv="createSchemaValidator (\<lambda>s. None)"
      and t="ThrownError ?ise" and meth=GET and u="?u" and std="?std" and v="\<lambda>d. Inr Promise"
      and config="?c" and path="?u" and options="?o" and ctx="?ctx" and req="?req" and n=3]
  note thT = th[where pf="node True" and definesFields=True]
  note thF = th[where pf="node False" and definesFields=False]
  have dT: "definesClassFields (node True)" and dF: "\<not> definesClassFields (node False)"
    by (simp_all add: node_def)
  have 1: "processResponse True okResponse ?po GET ?u (createSchemaValidator (\<lambda>s. None)) =
     Inl (SchemaValidationError
            ''Schema validation failed: Schema must implement the Standard Schema interface''
            ''userSchema'' (JsonData ''{}'') None)"
    using thT h1' h2' h3' h4 by simp
  have 2: "processResponse False okResponse ?po GET ?u (createSchemaValidator (\<lambda>s. None)) =
     Inl (SchemaValidationError
            ''Schema validation failed: Schema must implement the Standard Schema interface''
            ''userSchema'' (JsonData ''{}'') (Some ?ise))"
    using thF h1' h2' h3' h4 by simp
  have 3: "validate (createSchemaValidator ?std) ''userSchema'' (JsonData ''{}'') =
     Inl (ThrownError (AsyncSchemaValidationError
            ''Async Standard Schema validation is not supported in this context'' ''userSchema''))"
    using thT h5 by simp
  have 4: "fst (fetcher (node True) ?c ?u ?o) =
     Inl (SchemaValidationError
            ''Schema validation failed: Schema must implement the Standard Schema interface''
            ''userSchema'' (JsonData ''{}'') None)"
    using thT rp[of True] mr nr[of True] cf h1 h2 h3 h4' dT by simp
  have 5: "fst (fetcher (node False) ?c ?u ?o) =
     Inl (SchemaValidationError
            ''Schema validation failed: Schema must implement the Standard Schema interface''
            ''userSchema'' (JsonData ''{}'') (Some ?ise))"
    using thF rp[of False] mr nr[of False] cf h1 h2 h3 h4' dF by simp
  have 6: "calls (snd (fetcher (node True) ?c ?u ?o)) =
     [\<lparr> init_url = ?u, init_method = GET, init_headers = [], init_signal = ControllerSignal \<rparr>]"
    by (simp add: invalid_schema_run)
  have h6: "\<forall>i init e. customFetch ?c i init = Inl (ThrownError e) \<longrightarrow> \<not> protocolError e"
    by (simp add: clientOf_def)
  have "\<forall>e. fst (fetcher (node True) ?c ?u ?o) = Inl e \<longrightarrow> \<not> protocolError e"
    using thT h6 by blast
  then have 7: "\<not> protocolError (SchemaValidationError
            ''Schema validation failed: Schema must implement the Standard Schema interface''
            ''userSchema'' (JsonData ''{}'') None)"
    using 4 by blast
  show ?thesis using h1 h4 rp[of True] 1 2 3 4 5 6 7 by blast
qed

end
